theory Spec2Isabelle
  imports Main "HOL-Library.Sublist"
begin

section \<open>Platform classification\<close>

text \<open>
  Go strings are byte sequences; they are modelled as \<open>string\<close> (a list of \<open>char\<close>,
  one per byte). A platform tag is the string the source returns.
\<close>

subsection \<open>The orchestrator's classifier (package service)\<close>

text \<open>
  The inner loop of \<open>containsAny\<close>:
  \<^verbatim>\<open>for i := 0; i <= len(s)-len(sub); i++ { if s[i:i+len(sub)] == sub { return true } }\<close>
  It is entered only under the guard \<open>len(s) >= len(sub)\<close>, so the subtraction does not
  go below zero. The slice \<open>s[i:i+len(sub)]\<close> is \<open>take (length sub) (drop i s)\<close>.
\<close>

function containsAt :: "string \<Rightarrow> string \<Rightarrow> nat \<Rightarrow> bool" where
  "containsAt s sub i =
     (if i \<le> length s - length sub
      then (if take (length sub) (drop i s) = sub then True else containsAt s sub (Suc i))
      else False)"
  by pat_completeness auto
termination
  by (relation "measure (\<lambda>(s, sub, i). Suc (length s - length sub) - i)") auto

declare containsAt.simps [simp del]

fun containsAny :: "string \<Rightarrow> string list \<Rightarrow> bool" where
  "containsAny s [] = False"
| "containsAny s (sub # substrs) =
     (if length s \<ge> length sub \<and> containsAt s sub 0 then True
      else containsAny s substrs)"

definition detectPlatform :: "string \<Rightarrow> string" where
  "detectPlatform url =
     (if containsAny url [''youtube.com'', ''youtu.be''] then ''youtube''
      else if containsAny url [''tiktok.com''] then ''tiktok''
      else ''unknown'')"

subsection \<open>The metadata client's classifier (package apify)\<close>

text \<open>
  \<open>strings.ToLower\<close> and \<open>strings.Contains\<close> belong to Go's standard library.
  \<open>toLower\<close> is the library's path for a string of ASCII bytes: the letters
  \<open>A\<close> to \<open>Z\<close> move to \<open>a\<close> to \<open>z\<close>, every other byte stays. \<open>isASCII\<close> marks the
  strings on which this is all \<open>strings.ToLower\<close> does.
\<close>

definition lowerByte :: "char \<Rightarrow> char" where
  "lowerByte c =
     (let n = (of_char c :: nat) in if 65 \<le> n \<and> n \<le> 90 then char_of (n + 32) else c)"

definition toLower :: "string \<Rightarrow> string" where
  "toLower s = map lowerByte s"

definition isASCII :: "string \<Rightarrow> bool" where
  "isASCII s = list_all (\<lambda>c. (of_char c :: nat) < 128) s"

fun strContains :: "string \<Rightarrow> string \<Rightarrow> bool" where
  "strContains [] substr = (substr = [])"
| "strContains (c # cs) substr = (prefix substr (c # cs) \<or> strContains cs substr)"

definition apify_detectPlatform :: "string \<Rightarrow> string" where
  "apify_detectPlatform url =
     (let lowerURL = toLower url in
      if strContains lowerURL ''youtube.com'' \<or> strContains lowerURL ''youtu.be''
      then ''youtube''
      else if strContains lowerURL ''tiktok.com'' then ''tiktok''
      else [])"

text \<open>
  The two classifiers use different sentinels for an unsupported URL: the orchestrator's
  \<open>''unknown''\<close> stands for the metadata client's empty string.
\<close>

definition tagOfApify :: "string \<Rightarrow> string" where
  "tagOfApify t = (if t = [] then ''unknown'' else t)"

section \<open>Errors and external results\<close>

text \<open>
  A Go \<open>error\<close> value is modelled by its message; \<open>nil\<close> is \<open>None\<close> of
  \<open>error option\<close>. A function returning \<open>(T, error)\<close> whose caller tests the error
  first is a sum \<open>error + T\<close>.
\<close>

datatype error = Error string

fun msg :: "error \<Rightarrow> string" where
  "msg (Error m) = m"

text \<open>The verb \<open>%v\<close> of \<open>fmt.Sprintf\<close> applied to an error that may be nil.\<close>

fun fmtV :: "error option \<Rightarrow> string" where
  "fmtV None = ''<nil>''"
| "fmtV (Some err) = msg err"

section \<open>Video URL extraction (package apify)\<close>

text \<open>
  A JSON document as \<open>encoding/json\<close> decodes it into \<open>interface{}\<close>: an object is kept
  as its members in textual order, a number as its literal.
\<close>

datatype json =
    JNull
  | JBool bool
  | JNumber string
  | JString string
  | JArray "json list"
  | JObject "(string \<times> json) list"

type_synonym item = "(string \<times> json) list"

text \<open>
  Indexing a Go map built from a JSON object: when a key occurs twice the later member
  has overwritten the earlier one. A \<open>nil\<close> map (from JSON \<open>null\<close>) has no key.
\<close>

definition lookupKey :: "item \<Rightarrow> string \<Rightarrow> json option" where
  "lookupKey m k = map_of (rev m) k"

text \<open>The type assertion \<open>.(string)\<close> on the value found (or not) in the map.\<close>

fun asString :: "json option \<Rightarrow> string option" where
  "asString (Some (JString s)) = Some s"
| "asString _ = None"

text \<open>
  \<open>json.Unmarshal(rawData, &items)\<close> with \<open>items []map[string]interface{}\<close>. The
  argument is the document the bytes denote, \<open>None\<close> when they are not a JSON text.
  A top-level \<open>null\<close> leaves the slice nil; an element that is \<open>null\<close> becomes a nil
  map; any other shape is an unmarshal type error.
\<close>

fun unmarshalItem :: "json \<Rightarrow> error + item" where
  "unmarshalItem (JObject kvs) = Inr kvs"
| "unmarshalItem JNull = Inr []"
| "unmarshalItem _ =
     Inl (Error ''json: cannot unmarshal value into Go value of type map[string]interface {}'')"

fun unmarshalAll :: "json list \<Rightarrow> error + item list" where
  "unmarshalAll [] = Inr []"
| "unmarshalAll (j # js) =
     (case unmarshalItem j of
        Inl err \<Rightarrow> (case unmarshalAll js of Inl _ \<Rightarrow> Inl err | Inr _ \<Rightarrow> Inl err)
      | Inr it \<Rightarrow> (case unmarshalAll js of Inl err \<Rightarrow> Inl err | Inr its \<Rightarrow> Inr (it # its)))"

fun unmarshalItems :: "json option \<Rightarrow> error + item list" where
  "unmarshalItems None = Inl (Error ''invalid character looking for beginning of value'')"
| "unmarshalItems (Some (JArray js)) = unmarshalAll js"
| "unmarshalItems (Some JNull) = Inr []"
| "unmarshalItems (Some _) =
     Inl (Error ''json: cannot unmarshal value into Go value of type []map[string]interface {}'')"

definition fieldNames :: "string list" where
  "fieldNames = [''videoUrl'', ''video_url'', ''downloadUrl'', ''download_url'', ''videoPlayUrl'']"

text \<open>The loop over \<open>fieldNames\<close>: the first field holding a non-empty string wins.\<close>

fun probeFields :: "item \<Rightarrow> string list \<Rightarrow> string option" where
  "probeFields it [] = None"
| "probeFields it (field # fields) =
     (case asString (lookupKey it field) of
        Some val \<Rightarrow> if val \<noteq> [] then Some val else probeFields it fields
      | None \<Rightarrow> probeFields it fields)"

text \<open>The \<open>formats\<close> fallback: the \<open>url\<close> of the last element of a non-empty array.\<close>

definition probeFormats :: "item \<Rightarrow> string option" where
  "probeFormats it =
     (case lookupKey it ''formats'' of
        Some (JArray formats) \<Rightarrow>
          if length formats > 0 then
            (case formats ! (length formats - 1) of
               JObject format \<Rightarrow>
                 (case asString (lookupKey format ''url'') of
                    Some url \<Rightarrow> if url \<noteq> [] then Some url else None
                  | None \<Rightarrow> None)
             | _ \<Rightarrow> None)
          else None
      | _ \<Rightarrow> None)"

definition noResultsError :: error where
  "noResultsError = Error ''no results returned from scraper''"

definition videoURLNotFoundError :: error where
  "videoURLNotFoundError = Error ''could not find video URL in response''"

text \<open>The parameter \<open>platform\<close> is unused in the source, as it is here.\<close>

definition extractVideoURL :: "json option \<Rightarrow> string \<Rightarrow> error + string" where
  "extractVideoURL rawData platform =
     (case unmarshalItems rawData of
        Inl err \<Rightarrow> Inl err
      | Inr items \<Rightarrow>
          (case items of
             [] \<Rightarrow> Inl noResultsError
           | it # _ \<Rightarrow>
               (case probeFields it fieldNames of
                  Some val \<Rightarrow> Inr val
                | None \<Rightarrow>
                    (case probeFormats it of
                       Some url \<Rightarrow> Inr url
                     | None \<Rightarrow> Inl videoURLNotFoundError))))"

section \<open>The remote task protocol (package apify)\<close>

text \<open>
  The requests the client sends, in order. The network is an oracle: what each request
  returns is given from outside, and the model records which requests were sent.
\<close>

datatype request =
    PostRun string string string
  | GetStatus string
  | GetItems string

text \<open>
  What one status request yields: \<open>client.Do\<close> fails, the body does not decode, or the
  body decodes to \<open>data.status\<close> and \<open>data.defaultDatasetId\<close>.
\<close>

datatype statusReply =
    DoFailed error
  | DecodeFailed error
  | Status string string

text \<open>
  One turn of the loop starts with the \<open>select\<close>: either \<open>ctx.Done()\<close> is ready first
  (with \<open>ctx.Err()\<close>), or the timer \<open>time.After(3 * time.Second)\<close> fires and the status
  request is sent.
\<close>

datatype pollRound =
    CtxDone error
  | Tick statusReply

definition failedStatuses :: "string list" where
  "failedStatuses = [''FAILED'', ''ABORTED'', ''TIMED-OUT'']"

definition taskFailedError :: "string \<Rightarrow> error" where
  "taskFailedError st = Error (''actor run failed with status: '' @ st)"

text \<open>
  \<open>getDatasetItems\<close>: \<open>fetch\<close> is what the GET of the dataset returns (\<open>client.Do\<close>
  followed by \<open>io.ReadAll\<close>).
\<close>

definition getDatasetItems ::
  "(string \<Rightarrow> error + string) \<Rightarrow> string \<Rightarrow> (error + string) \<times> request list" where
  "getDatasetItems fetch datasetID = (fetch datasetID, [GetItems datasetID])"

text \<open>
  \<open>waitAndGetResults\<close>. The source's \<open>for\<close> has no bound: the loop is driven by the
  list of rounds the environment supplies, and the result is \<open>None\<close> when the list runs
  out while the task is still in a non-terminal state (the loop would poll on). The
  second component is the list of requests sent.
\<close>

fun waitAndGetResults ::
  "(string \<Rightarrow> error + string) \<Rightarrow> string \<Rightarrow> pollRound list \<Rightarrow>
   (error + string) option \<times> request list" where
  "waitAndGetResults fetch runID [] = (None, [])"
| "waitAndGetResults fetch runID (CtxDone err # rounds) = (Some (Inl err), [])"
| "waitAndGetResults fetch runID (Tick (DoFailed err) # rounds) =
     (Some (Inl err), [GetStatus runID])"
| "waitAndGetResults fetch runID (Tick (DecodeFailed err) # rounds) =
     (Some (Inl err), [GetStatus runID])"
| "waitAndGetResults fetch runID (Tick (Status st datasetID) # rounds) =
     (if st = ''SUCCEEDED'' then
        (let (r, reqs) = getDatasetItems fetch datasetID
         in (Some r, GetStatus runID # reqs))
      else if st \<in> set failedStatuses then
        (Some (Inl (taskFailedError st)), [GetStatus runID])
      else
        (let (r, reqs) = waitAndGetResults fetch runID rounds
         in (r, GetStatus runID # reqs)))"

subsection \<open>Scrape\<close>

record ScrapeResult =
  RawMetadata :: string
  VideoURL :: string

definition youtubeMetadataActorID :: string where
  "youtubeMetadataActorID = ''h7sDV53CddomktSi5''"

definition tiktokActorID :: string where
  "tiktokActorID = ''GdWCkxBtKWOsKjdch''"

definition getActorID :: "string \<Rightarrow> string" where
  "getActorID platform =
     (if platform = ''youtube'' then youtubeMetadataActorID
      else if platform = ''tiktok'' then tiktokActorID
      else [])"

text \<open>
  What the POST that starts the run yields: the request cannot be built, it cannot be
  sent, or a response arrives with its status code, its body, and what decoding the body into
  \<open>data.id\<close> gives.
\<close>

datatype startReply =
    RequestNotBuilt error
  | StartFailed error
  | StartResponse nat string "error + string"

text \<open>The verb \<open>%d\<close> on a status code.\<close>

function decimal :: "nat \<Rightarrow> string" where
  "decimal n =
     (if n < 10 then [char_of (48 + n)]
      else decimal (n div 10) @ [char_of (48 + n mod 10)])"
  by pat_completeness auto
termination
  by (relation "measure id") auto

declare decimal.simps [simp del]

definition startActorRun ::
  "startReply \<Rightarrow> string \<Rightarrow> string \<Rightarrow> string \<Rightarrow> (error + string) \<times> request list" where
  "startActorRun reply actorID videoURL platform =
     (case reply of
        RequestNotBuilt err \<Rightarrow> (Inl err, [])
      | StartFailed err \<Rightarrow> (Inl err, [PostRun actorID videoURL platform])
      | StartResponse code body decoded \<Rightarrow>
          (if code \<noteq> 201 then
             Inl (Error (''failed to start actor: status '' @ decimal code @ '', body: '' @ body))
           else decoded,
           [PostRun actorID videoURL platform]))"

text \<open>The remote service as the client sees it during one call of \<open>Scrape\<close>.\<close>

record remote =
  startReplyOf :: startReply
  rounds :: "pollRound list"
  fetch :: "string \<Rightarrow> error + string"
  decode :: "string \<Rightarrow> json option"

text \<open>
  \<open>Scrape\<close>. The error of \<open>extractVideoURL\<close> is discarded
  (\<open>videoURL, _ := s.extractVideoURL(rawData, platform)\<close>): on failure the URL is the
  empty string, whatever the platform.
\<close>

definition Scrape ::
  "remote \<Rightarrow> string \<Rightarrow> (error + ScrapeResult) option \<times> request list" where
  "Scrape srv videoPageURL =
     (let platform = apify_detectPlatform videoPageURL in
      if platform = [] then
        (Some (Inl (Error (''unsupported platform for URL: '' @ videoPageURL))), [])
      else
        (let actorID = getActorID platform in
         if actorID = [] then
           (Some (Inl (Error (''no actor configured for platform: '' @ platform))), [])
         else
           (case startActorRun (startReplyOf srv) actorID videoPageURL platform of
              (Inl err, reqs) \<Rightarrow>
                (Some (Inl (Error (''failed to start actor run: '' @ msg err))), reqs)
            | (Inr runID, reqs) \<Rightarrow>
                (case waitAndGetResults (fetch srv) runID (rounds srv) of
                   (None, reqs') \<Rightarrow> (None, reqs @ reqs')
                 | (Some (Inl err), reqs') \<Rightarrow>
                     (Some (Inl (Error (''failed to get results: '' @ msg err))), reqs @ reqs')
                 | (Some (Inr rawData), reqs') \<Rightarrow>
                     (let videoURL =
                        (case extractVideoURL (decode srv rawData) platform of
                           Inl _ \<Rightarrow> []
                         | Inr v \<Rightarrow> v)
                      in (Some (Inr \<lparr>RawMetadata = rawData, VideoURL = videoURL\<rparr>),
                          reqs @ reqs'))))))"

section \<open>The external resolution tool (package ytdlp)\<close>

text \<open>
  \<open>strings.TrimSpace\<close> on a string of ASCII bytes removes the leading and trailing
  bytes among tab, line feed, vertical tab, form feed, carriage return and space.
  \<open>strings.Split\<close> with the separator \<open>"\n"\<close> cuts at every line feed and always returns
  at least one piece.
\<close>

definition isSpace :: "char \<Rightarrow> bool" where
  "isSpace c = (let n = (of_char c :: nat) in (9 \<le> n \<and> n \<le> 13) \<or> n = 32)"

definition TrimSpace :: "string \<Rightarrow> string" where
  "TrimSpace s = rev (dropWhile isSpace (rev (dropWhile isSpace s)))"

definition lineFeed :: char where
  "lineFeed = char_of (10 :: nat)"

fun splitLines :: "string \<Rightarrow> string list" where
  "splitLines [] = [ [] ]"
| "splitLines (c # cs) =
     (if c = lineFeed then [] # splitLines cs
      else (case splitLines cs of
              [] \<Rightarrow> [ [c] ]
            | l # ls \<Rightarrow> (c # l) # ls))"

text \<open>What \<open>cmd.Run()\<close> left behind: its error and the two captured streams.\<close>

record cmdResult =
  runErr :: "error option"
  stdout :: string
  stderr :: string

definition ytdlpTimeoutSeconds :: nat where
  "ytdlpTimeoutSeconds = 2 * 60"

definition ytdlpArgs :: "string \<Rightarrow> string list" where
  "ytdlpArgs videoURL = [''-f'', ''b'', ''--get-url'', ''--no-warnings'', videoURL]"

text \<open>
  \<open>GetVideoURL\<close> returns the Go pair \<open>(string, error)\<close> as it is, because the caller
  looks at both components.
\<close>

definition GetVideoURL :: "cmdResult \<Rightarrow> string \<times> error option" where
  "GetVideoURL c =
     (case runErr c of
        Some err \<Rightarrow>
          ([], Some (Error (''yt-dlp failed: '' @ msg err @ '', stderr: '' @ stderr c)))
      | None \<Rightarrow>
          (let urlStr = TrimSpace (stdout c) in
           if urlStr = [] then ([], Some (Error ''yt-dlp returned empty URL''))
           else
             (let urls = splitLines urlStr in
              if length urls > 0 then (urls ! 0, None) else (urlStr, None))))"

section \<open>The job orchestrator (package service)\<close>

text \<open>A \<open>time.Time\<close> is an instant counted from the zero value of the type.\<close>

type_synonym time = nat

definition zeroTime :: time where
  "zeroTime = 0"

record Job =
  ID :: string
  URL :: string
  Platform :: string
  CreatedAt :: time

record JobResult =
  Job :: Job
  MetadataPath :: string
  VideoPath :: string
  Success :: bool
  ErrorMessage :: string
  CompletedAt :: time

text \<open>
  Everything \<open>RunJob\<close> gets from outside: the identifier and the two clock readings, the
  JSON rendering of the job, and what each collaborator answers to a call with given
  arguments (the storage sink, the scraper, the subprocess behind \<open>GetVideoURL\<close>, the
  downloader). Logging and the printed summary are left out: they do not change the
  result.
\<close>

record world =
  newUUID :: string
  nowCreated :: time
  nowCompleted :: time
  marshalIndent :: "Job \<Rightarrow> string"
  initJob :: "string \<Rightarrow> error option"
  saveInput :: "string \<Rightarrow> string \<Rightarrow> error option"
  scrape :: "string \<Rightarrow> error + ScrapeResult"
  saveMetadata :: "string \<Rightarrow> string \<Rightarrow> error option"
  getJobPath :: "string \<Rightarrow> string"
  runYtDlp :: "string list \<Rightarrow> cmdResult"
  download :: "string \<Rightarrow> error + string"
  saveVideo :: "string \<Rightarrow> string \<Rightarrow> string \<Rightarrow> error option"

text \<open>
  The calls \<open>RunJob\<close> makes on its collaborators, each with its arguments and the error
  it returned (\<open>None\<close> for nil). \<open>RunTool\<close> is the call of \<open>GetVideoURL\<close>: the timeout
  in seconds and the arguments given to the tool.
\<close>

datatype event =
    InitJob string "error option"
  | SaveInput string string "error option"
  | ScrapeCall string "error option"
  | SaveMetadata string string "error option"
  | RunTool nat "string list" "error option"
  | Download string "error option"
  | SaveVideo string string string "error option"
  | CloseReader

type_synonym outcome = "JobResult \<times> error option \<times> event list"

text \<open>
  Step 4 of \<open>RunJob\<close> (the choice of the video URL, up to the test for an empty URL):
  \<open>Inl\<close> is an early return of the whole function, \<open>Inr\<close> carries
  \<open>videoDownloadURL\<close> on.
\<close>

definition resolveVideoURL ::
  "world \<Rightarrow> Job \<Rightarrow> ScrapeResult \<Rightarrow> JobResult \<Rightarrow> event list \<Rightarrow> outcome + (string \<times> event list)" where
  "resolveVideoURL w job scrapeResult result tr =
     (if Platform job = ''youtube'' then
        (let (ytUrl, ytErr) = GetVideoURL (runYtDlp w (ytdlpArgs (URL job)));
             tr' = tr @ [RunTool ytdlpTimeoutSeconds (ytdlpArgs (URL job)) ytErr]
         in if ytErr = None \<and> ytUrl \<noteq> [] then Inr (ytUrl, tr')
            else Inl (result\<lparr>ErrorMessage := ''yt-dlp failed: '' @ fmtV ytErr\<rparr>, ytErr, tr'))
      else
        (if VideoURL scrapeResult = [] then
           Inl (result, Some (Error ''no video url resolved''), tr)
         else Inr (VideoURL scrapeResult, tr)))"

text \<open>Step 5 and the end of \<open>RunJob\<close>: download, save, mark the success.\<close>

definition downloadAndSave ::
  "world \<Rightarrow> string \<Rightarrow> string \<Rightarrow> JobResult \<Rightarrow> event list \<Rightarrow> outcome" where
  "downloadAndSave w jobID videoDownloadURL result tr =
     (case download w videoDownloadURL of
        Inl err \<Rightarrow>
          (result\<lparr>ErrorMessage := ''failed to download video: '' @ msg err\<rparr>, Some err,
           tr @ [Download videoDownloadURL (Some err)])
      | Inr videoReader \<Rightarrow>
          (case saveVideo w jobID videoReader ''video.mp4'' of
             Some err \<Rightarrow>
               (result\<lparr>ErrorMessage := ''failed to save video: '' @ msg err\<rparr>, Some err,
                tr @ [Download videoDownloadURL None,
                      SaveVideo jobID videoReader ''video.mp4'' (Some err), CloseReader])
           | None \<Rightarrow>
               (result\<lparr>VideoPath := getJobPath w jobID @ ''/video.mp4'',
                       Success := True,
                       CompletedAt := nowCompleted w\<rparr>, None,
                tr @ [Download videoDownloadURL None,
                      SaveVideo jobID videoReader ''video.mp4'' None, CloseReader])))"

text \<open>The two composite literals at the head of \<open>RunJob\<close>.\<close>

definition newJob :: "world \<Rightarrow> string \<Rightarrow> Job" where
  "newJob w url =
     \<lparr>ID = newUUID w, URL = url, Platform = detectPlatform url, CreatedAt = nowCreated w\<rparr>"

definition newResult :: "Job \<Rightarrow> JobResult" where
  "newResult job =
     \<lparr>Job = job, MetadataPath = [], VideoPath = [], Success = False,
      ErrorMessage = [], CompletedAt = zeroTime\<rparr>"

definition RunJob :: "world \<Rightarrow> string \<Rightarrow> outcome" where
  "RunJob w url =
     (let jobID = newUUID w;
          job = newJob w url;
          result = newResult job
      in case initJob w jobID of
           Some err \<Rightarrow>
             (result\<lparr>ErrorMessage := ''failed to init job: '' @ msg err\<rparr>, Some err,
              [InitJob jobID (Some err)])
         | None \<Rightarrow>
             (let inputData = marshalIndent w job;
                  tr = [InitJob jobID None,
                        SaveInput jobID inputData (saveInput w jobID inputData)]
              in case scrape w url of
                   Inl err \<Rightarrow>
                     (result\<lparr>ErrorMessage := ''failed to scrape metadata: '' @ msg err\<rparr>,
                      Some err, tr @ [ScrapeCall url (Some err)])
                 | Inr scrapeResult \<Rightarrow>
                     (case saveMetadata w jobID (RawMetadata scrapeResult) of
                        Some err \<Rightarrow>
                          (result\<lparr>ErrorMessage := ''failed to save metadata: '' @ msg err\<rparr>,
                           Some err,
                           tr @ [ScrapeCall url None,
                                 SaveMetadata jobID (RawMetadata scrapeResult) (Some err)])
                      | None \<Rightarrow>
                          (let result' = result\<lparr>MetadataPath :=
                                           getJobPath w jobID @ ''/metadata_raw.json''\<rparr>;
                               tr' = tr @ [ScrapeCall url None,
                                           SaveMetadata jobID (RawMetadata scrapeResult) None]
                           in case resolveVideoURL w job scrapeResult result' tr' of
                                Inl early \<Rightarrow> early
                              | Inr (videoDownloadURL, tr2) \<Rightarrow>
                                  downloadAndSave w jobID videoDownloadURL result' tr2))))"



fun toolCall :: "event \<Rightarrow> (nat \<times> string list) option" where
  "toolCall (RunTool t args _) = Some (t, args)"
| "toolCall _ = None"

fun downloadCall :: "event \<Rightarrow> string option" where
  "downloadCall (Download u _) = Some u"
| "downloadCall _ = None"

definition toolCalls :: "event list \<Rightarrow> (nat \<times> string list) list" where
  "toolCalls tr = List.map_filter toolCall tr"

definition downloadCalls :: "event list \<Rightarrow> string list" where
  "downloadCalls tr = List.map_filter downloadCall tr"

fun metadataWritten :: "event \<Rightarrow> bool" where
  "metadataWritten (SaveMetadata _ _ None) = True"
| "metadataWritten _ = False"

fun videoWritten :: "event \<Rightarrow> bool" where
  "videoWritten (SaveVideo _ _ _ None) = True"
| "videoWritten _ = False"

section \<open>Notions the properties are stated with\<close>

text \<open>
  The value a record holds under a key, when that value is a non-empty string (what the
  claim on extraction calls a non-empty string value found under a field name).
\<close>

definition nonEmptyStringAt :: "item \<Rightarrow> string \<Rightarrow> string option" where
  "nonEmptyStringAt m k =
     (case lookupKey m k of
        Some (JString v) \<Rightarrow> if v = [] then None else Some v
      | _ \<Rightarrow> None)"

text \<open>
  The terminal statuses: success and the failure family. A round is still running when
  the timer fired and the status received is not terminal.
\<close>

definition isTerminal :: "string \<Rightarrow> bool" where
  "isTerminal st = (st = ''SUCCEEDED'' \<or> st \<in> set failedStatuses)"

fun stillRunning :: "pollRound \<Rightarrow> bool" where
  "stillRunning (Tick (Status st datasetID)) = (\<not> isTerminal st)"
| "stillRunning _ = False"

section \<open>Concrete environments\<close>

text \<open>
  A world in which every collaborator succeeds, used to run the model on concrete
  inputs; the failing runs below change one answer of it. The tool prints two URLs, one
  per line.
\<close>

definition okWorld :: world where
  "okWorld =
     \<lparr>newUUID = ''job-1'', nowCreated = 100, nowCompleted = 200,
      marshalIndent = (\<lambda>job. ''{}''),
      initJob = (\<lambda>jobID. None),
      saveInput = (\<lambda>jobID data. None),
      scrape = (\<lambda>url. Inr \<lparr>RawMetadata = ''[{}]'', VideoURL = ''https://cdn/v.mp4''\<rparr>),
      saveMetadata = (\<lambda>jobID data. None),
      getJobPath = (\<lambda>jobID. ''out/jobs/'' @ jobID),
      runYtDlp = (\<lambda>args. \<lparr>runErr = None,
                              stdout = ''https://a/1'' @ [lineFeed] @ ''https://a/2'' @ [lineFeed],
                              stderr = []\<rparr>),
      download = (\<lambda>url. Inr ''bytes''),
      saveVideo = (\<lambda>jobID reader filename. None)\<rparr>"

definition youtubeURL :: string where
  "youtubeURL = ''https://youtu.be/abc''"

definition tiktokURL :: string where
  "tiktokURL = ''https://tiktok.com/@u/video/1''"

definition vimeoURL :: string where
  "vimeoURL = ''https://vimeo.com/1''"

definition downloadFailsWorld :: world where
  "downloadFailsWorld =
     okWorld\<lparr>download := (\<lambda>url. Inl (Error ''unexpected status code: 404''))\<rparr>"


definition toolFailsWorld :: world where
  "toolFailsWorld =
     okWorld\<lparr>runYtDlp := (\<lambda>args. \<lparr>runErr = Some (Error ''exit status 1''), stdout = [],
                                       stderr = ''ERROR: video unavailable''\<rparr>)\<rparr>"

text \<open>Worlds whose scraper answers what \<open>Scrape\<close> answers against \<open>emptyRemote\<close>.\<close>

definition unsupportedWorld :: world where
  "unsupportedWorld =
     okWorld\<lparr>scrape := (\<lambda>url. Inl (Error (''unsupported platform for URL: '' @ url)))\<rparr>"

definition emptyResultWorld :: world where
  "emptyResultWorld =
     okWorld\<lparr>scrape := (\<lambda>url. Inr \<lparr>RawMetadata = ''[]'', VideoURL = []\<rparr>)\<rparr>"

text \<open>
  A remote service whose task succeeds at the second poll with an empty result array,
  and a reader of JSON texts that knows this one text.
\<close>

definition emptyRemote :: remote where
  "emptyRemote =
     \<lparr>startReplyOf = StartResponse 201 ''{}'' (Inr ''run-1''),
      rounds = [Tick (Status ''RUNNING'' ''ds-1''), Tick (Status ''SUCCEEDED'' ''ds-1'')],
      fetch = (\<lambda>datasetID. Inr ''[]''),
      decode = (\<lambda>bytes. if bytes = ''[]'' then Some (JArray []) else None)\<rparr>"

section \<open>Properties of the classifiers\<close>

lemma strContains_sublist: "strContains s sub = sublist sub s"
  by (induction s) (auto simp: sublist_Cons_right)

lemma containsAt_iff:
  "length sub \<le> length s \<Longrightarrow>
   containsAt s sub i = (\<exists>j. i \<le> j \<and> j \<le> length s - length sub \<and> take (length sub) (drop j s) = sub)"
proof (induction s sub i rule: containsAt.induct)
  case (1 s sub i)
  show ?case
  proof (cases "i \<le> length s - length sub")
    case False
    then show ?thesis by (subst containsAt.simps) auto
  next
    case le: True
    show ?thesis
    proof (cases "take (length sub) (drop i s) = sub")
      case True
      with le show ?thesis by (subst containsAt.simps) auto
    next
      case False
      have "containsAt s sub i = containsAt s sub (Suc i)"
        using le False by (subst containsAt.simps) simp
      also have "\<dots> = (\<exists>j. Suc i \<le> j \<and> j \<le> length s - length sub \<and> take (length sub) (drop j s) = sub)"
        using "1.IH" [OF le False] "1.prems" by simp
      also have "\<dots> = (\<exists>j. i \<le> j \<and> j \<le> length s - length sub \<and> take (length sub) (drop j s) = sub)"
        using False by (metis Suc_leD Suc_leI le_neq_implies_less)
      finally show ?thesis .
    qed
  qed
qed

lemma sublist_iff_slice:
  "sublist sub s = (length sub \<le> length s \<and>
     (\<exists>j. j \<le> length s - length sub \<and> take (length sub) (drop j s) = sub))"
proof
  assume "sublist sub s"
  then obtain ps ss where s: "s = ps @ sub @ ss" by (auto simp: sublist_def)
  then have "take (length sub) (drop (length ps) s) = sub" by simp
  moreover have "length ps \<le> length s - length sub" using s by simp
  moreover have "length sub \<le> length s" using s by simp
  ultimately show "length sub \<le> length s \<and>
     (\<exists>j. j \<le> length s - length sub \<and> take (length sub) (drop j s) = sub)" by blast
next
  assume "length sub \<le> length s \<and>
     (\<exists>j. j \<le> length s - length sub \<and> take (length sub) (drop j s) = sub)"
  then obtain j where j: "take (length sub) (drop j s) = sub" by blast
  have "s = take j s @ drop j s" by simp
  also have "drop j s = take (length sub) (drop j s) @ drop (length sub) (drop j s)"
    by (simp only: append_take_drop_id)
  finally have "s = take j s @ take (length sub) (drop j s) @ drop (length sub) (drop j s)" .
  with j have "s = take j s @ sub @ drop (length sub) (drop j s)" by simp
  then show "sublist sub s" unfolding sublist_def by blast
qed

lemma containsAny_iff: "containsAny s substrs = (\<exists>sub \<in> set substrs. sublist sub s)"
proof (induction substrs)
  case Nil
  show ?case by simp
next
  case (Cons sub substrs)
  have "(length sub \<le> length s \<and> containsAt s sub 0) = sublist sub s"
    using containsAt_iff [of sub s 0] sublist_iff_slice [of sub s] by auto
  with Cons show ?case by auto
qed

lemma sublist_toLower: "sublist sub s \<Longrightarrow> sublist (toLower sub) (toLower s)"
  unfolding sublist_def toLower_def by (metis map_append)

lemma toLower_fragments:
  "toLower ''youtube.com'' = ''youtube.com''"
  "toLower ''youtu.be'' = ''youtu.be''"
  "toLower ''tiktok.com'' = ''tiktok.com''"
  by code_simp+

text \<open>The orchestrator's classifier is a case-sensitive substring test.\<close>

lemma detectPlatform_sublist:
  "detectPlatform url =
     (if sublist ''youtube.com'' url \<or> sublist ''youtu.be'' url then ''youtube''
      else if sublist ''tiktok.com'' url then ''tiktok'' else ''unknown'')"
  by (simp add: detectPlatform_def containsAny_iff)

text \<open>The metadata client's classifier is the same test on the lowered URL.\<close>

lemma apify_detectPlatform_sublist:
  "apify_detectPlatform url =
     (if sublist ''youtube.com'' (toLower url) \<or> sublist ''youtu.be'' (toLower url)
      then ''youtube''
      else if sublist ''tiktok.com'' (toLower url) then ''tiktok'' else [])"
  by (simp add: apify_detectPlatform_def strContains_sublist Let_def)

text \<open>On a URL without capital letters the two classifiers give the same tag.\<close>

lemma classifiers_agree_on_lower:
  "toLower url = url \<Longrightarrow> tagOfApify (apify_detectPlatform url) = detectPlatform url"
  by (simp add: detectPlatform_sublist apify_detectPlatform_sublist tagOfApify_def)

text \<open>A URL the metadata client rejects is one the orchestrator tags \<open>unknown\<close>.\<close>

lemma apify_unsupported_unknown:
  assumes "apify_detectPlatform url = []"
  shows "detectPlatform url = ''unknown''"
proof -
  have a: "\<not> sublist ''youtube.com'' (toLower url)" "\<not> sublist ''youtu.be'' (toLower url)"
    "\<not> sublist ''tiktok.com'' (toLower url)"
    using assms by (auto simp: apify_detectPlatform_sublist split: if_splits)
  have "\<not> sublist ''youtube.com'' url" "\<not> sublist ''youtu.be'' url"
    "\<not> sublist ''tiktok.com'' url"
    using a sublist_toLower toLower_fragments by metis+
  then show ?thesis by (simp add: detectPlatform_sublist)
qed

text \<open>
  Claim C3 (the two classifiers return the same tag for every URL). The code does not
  do this: on \<open>https://www.TikTok.com/@u/video/1\<close> the orchestrator's classifier answers
  \<open>unknown\<close> while the metadata client's answers \<open>tiktok\<close>, because only the latter
  lowers the URL before matching.
\<close>

theorem classifiers_disagree:
  "detectPlatform ''https://www.TikTok.com/@u/video/1'' = ''unknown'' \<and>
   tagOfApify (apify_detectPlatform ''https://www.TikTok.com/@u/video/1'') = ''tiktok''"
  by code_simp

text \<open>
  Claim C4 (the orchestrator's classifier matches in any letter casing). The code does
  not do this: \<open>https://YOUTUBE.COM/watch?v=1\<close> contains \<open>youtube.com\<close> once lowered,
  and the orchestrator's classifier answers \<open>unknown\<close>.
\<close>

theorem detectPlatform_case_sensitive:
  "detectPlatform ''https://YOUTUBE.COM/watch?v=1'' = ''unknown'' \<and>
   strContains (toLower ''https://YOUTUBE.COM/watch?v=1'') ''youtube.com''"
  by code_simp

section \<open>Properties of the video URL extraction\<close>

lemma asString_nonEmpty:
  "(case asString (lookupKey m k) of Some val \<Rightarrow> if val \<noteq> [] then Some val else d | None \<Rightarrow> d)
   = (case nonEmptyStringAt m k of Some v \<Rightarrow> Some v | None \<Rightarrow> d)"
  by (cases "lookupKey m k" rule: asString.cases) (auto simp: nonEmptyStringAt_def)

lemma probeFields_step:
  "probeFields m (f # fs) =
     (case nonEmptyStringAt m f of Some v \<Rightarrow> Some v | None \<Rightarrow> probeFields m fs)"
  by (simp add: asString_nonEmpty)

lemma probeFields_none:
  "(\<forall>f \<in> set fs. nonEmptyStringAt m f = None) \<Longrightarrow> probeFields m fs = None"
  by (induction fs) (simp_all add: probeFields_step del: probeFields.simps(2))

lemma probeFields_first:
  "i < length fs \<Longrightarrow> nonEmptyStringAt m (fs ! i) = Some v \<Longrightarrow>
   (\<forall>j < i. nonEmptyStringAt m (fs ! j) = None) \<Longrightarrow> probeFields m fs = Some v"
proof (induction fs arbitrary: i)
  case Nil
  then show ?case by simp
next
  case (Cons f fs)
  show ?case
  proof (cases i)
    case 0
    with Cons.prems show ?thesis by (simp add: probeFields_step del: probeFields.simps(2))
  next
    case (Suc k)
    from Cons.prems Suc have f: "nonEmptyStringAt m f = None" by auto
    from Cons.prems Suc have "k < length fs" "nonEmptyStringAt m (fs ! k) = Some v"
      "\<forall>j < k. nonEmptyStringAt m (fs ! j) = None" by auto
    then have "probeFields m fs = Some v" by (rule Cons.IH)
    with f show ?thesis by (simp add: probeFields_step del: probeFields.simps(2))
  qed
qed

lemma asString_Some: "asString x = Some s \<longleftrightarrow> x = Some (JString s)"
  by (cases x rule: asString.cases) auto

lemma probeFormats_iff:
  "probeFormats m = Some u \<longleftrightarrow>
   (\<exists>fs fm. lookupKey m ''formats'' = Some (JArray fs) \<and> fs \<noteq> [] \<and> last fs = JObject fm \<and>
      nonEmptyStringAt fm ''url'' = Some u)"
proof (cases "lookupKey m ''formats''")
  case None
  then show ?thesis by (simp add: probeFormats_def)
next
  case (Some j)
  show ?thesis
  proof (cases j)
    case (JArray fs)
    show ?thesis
    proof (cases "fs = []")
      case True
      with Some JArray show ?thesis by (simp add: probeFormats_def)
    next
      case False
      then have l: "fs ! (length fs - 1) = last fs" by (simp add: last_conv_nth)
      show ?thesis
      proof (cases "last fs")
        case (JObject fm)
        show ?thesis
          using Some JArray False l JObject
          by (cases "lookupKey fm ''url''" rule: asString.cases)
             (simp_all add: probeFormats_def nonEmptyStringAt_def)
      qed (use Some JArray False l in \<open>simp_all add: probeFormats_def\<close>)
    qed
  qed (use Some in \<open>simp_all add: probeFormats_def\<close>)
qed


lemma extract_cons:
  "unmarshalItems raw = Inr (m # rest) \<Longrightarrow>
   extractVideoURL raw p =
     (case probeFields m fieldNames of
        Some val \<Rightarrow> Inr val
      | None \<Rightarrow> (case probeFormats m of Some url \<Rightarrow> Inr url | None \<Rightarrow> Inl videoURLNotFoundError))"
  by (simp add: extractVideoURL_def)

text \<open>
  Claim C5. \<open>extractVideoURL\<close> reads the result bytes as an array of records. On an
  empty array it fails with the no-results error. On the first record it returns the
  first non-empty string found under \<open>videoUrl\<close>, \<open>video_url\<close>, \<open>downloadUrl\<close>,
  \<open>download_url\<close>, \<open>videoPlayUrl\<close>, in this order; when no such field holds one, it
  returns the non-empty \<open>url\<close> string of the last element of the \<open>formats\<close> array;
  when there is no such candidate either, it fails with the URL-not-found error. The two
  examples of the claim are the last conjuncts.
\<close>

theorem extractVideoURL_spec:
  "(unmarshalItems raw = Inr [] \<longrightarrow> extractVideoURL raw p = Inl noResultsError) \<and>
   (unmarshalItems raw = Inr (m # rest) \<longrightarrow>
      (\<forall>i < length fieldNames. \<forall>v.
          nonEmptyStringAt m (fieldNames ! i) = Some v \<and>
          (\<forall>j < i. nonEmptyStringAt m (fieldNames ! j) = None) \<longrightarrow>
          extractVideoURL raw p = Inr v) \<and>
      ((\<forall>f \<in> set fieldNames. nonEmptyStringAt m f = None) \<longrightarrow>
         (\<forall>fs fm u. lookupKey m ''formats'' = Some (JArray fs) \<and> fs \<noteq> [] \<and>
             last fs = JObject fm \<and> nonEmptyStringAt fm ''url'' = Some u \<longrightarrow>
             extractVideoURL raw p = Inr u) \<and>
         ((\<nexists>fs fm u. lookupKey m ''formats'' = Some (JArray fs) \<and> fs \<noteq> [] \<and>
             last fs = JObject fm \<and> nonEmptyStringAt fm ''url'' = Some u) \<longrightarrow>
             extractVideoURL raw p = Inl videoURLNotFoundError))) \<and>
   extractVideoURL (Some (JArray [])) p = Inl noResultsError \<and>
   extractVideoURL (Some (JArray [JObject [(''videoUrl'', JString ''https://x/y.mp4'')]])) p
     = Inr ''https://x/y.mp4'' \<and>
   extractVideoURL
     (Some (JArray [JObject [(''formats'',
        JArray [JObject [(''url'', JString ''a'')], JObject [(''url'', JString ''b'')]])]])) p
     = Inr ''b''"
proof (intro conjI impI allI)
  assume "unmarshalItems raw = Inr []"
  then show "extractVideoURL raw p = Inl noResultsError" by (simp add: extractVideoURL_def)
next
  fix i v
  assume u: "unmarshalItems raw = Inr (m # rest)" and i: "i < length fieldNames"
    and h: "nonEmptyStringAt m (fieldNames ! i) = Some v \<and>
            (\<forall>j < i. nonEmptyStringAt m (fieldNames ! j) = None)"
  from i h have "probeFields m fieldNames = Some v" by (intro probeFields_first) auto
  with u show "extractVideoURL raw p = Inr v" by (simp add: extract_cons)
next
  fix fs fm u
  assume r: "unmarshalItems raw = Inr (m # rest)"
    and n: "\<forall>f \<in> set fieldNames. nonEmptyStringAt m f = None"
    and f: "lookupKey m ''formats'' = Some (JArray fs) \<and> fs \<noteq> [] \<and>
            last fs = JObject fm \<and> nonEmptyStringAt fm ''url'' = Some u"
  from n have "probeFields m fieldNames = None" by (rule probeFields_none)
  moreover from f have "probeFormats m = Some u" unfolding probeFormats_iff by blast
  ultimately show "extractVideoURL raw p = Inr u" using r by (simp add: extract_cons)
next
  assume r: "unmarshalItems raw = Inr (m # rest)"
    and n: "\<forall>f \<in> set fieldNames. nonEmptyStringAt m f = None"
    and f: "\<nexists>fs fm u. lookupKey m ''formats'' = Some (JArray fs) \<and> fs \<noteq> [] \<and>
            last fs = JObject fm \<and> nonEmptyStringAt fm ''url'' = Some u"
  from n have "probeFields m fieldNames = None" by (rule probeFields_none)
  moreover have "probeFormats m = None"
  proof (cases "probeFormats m")
    case (Some a)
    then have "\<exists>fs fm. lookupKey m ''formats'' = Some (JArray fs) \<and> fs \<noteq> [] \<and>
        last fs = JObject fm \<and> nonEmptyStringAt fm ''url'' = Some a"
      by (simp only: probeFormats_iff)
    with f show ?thesis by blast
  qed simp
  ultimately show "extractVideoURL raw p = Inl videoURLNotFoundError"
    using r by (simp add: extract_cons)
next
  show "extractVideoURL (Some (JArray [])) p = Inl noResultsError"
    by (simp add: extractVideoURL_def)
next
  show "extractVideoURL (Some (JArray [JObject [(''videoUrl'', JString ''https://x/y.mp4'')]])) p
     = Inr ''https://x/y.mp4''"
    by (simp add: extractVideoURL_def fieldNames_def lookupKey_def)
next
  show "extractVideoURL
     (Some (JArray [JObject [(''formats'',
        JArray [JObject [(''url'', JString ''a'')], JObject [(''url'', JString ''b'')]])]])) p
     = Inr ''b''"
    by (simp add: extractVideoURL_def fieldNames_def lookupKey_def probeFormats_def)
qed

theorem extractVideoURL_spec_witness:
  "extractVideoURL
     (Some (JArray [JObject [(''video_url'', JString []), (''downloadUrl'', JString ''https://d/1''),
                             (''videoPlayUrl'', JString ''https://p/2'')], JNull])) ''tiktok''
     = Inr ''https://d/1'' \<and>
   extractVideoURL
     (Some (JArray [JObject [(''videoUrl'', JNumber ''1''),
        (''formats'', JArray [JObject [(''url'', JString ''a'')], JObject [(''url'', JString ''b'')]])]]))
     ''youtube'' = Inr ''b'' \<and>
   extractVideoURL
     (Some (JArray [JObject [(''formats'', JArray [JObject [(''url'', JString ''a'')], JString ''b''])]]))
     ''youtube'' = Inl videoURLNotFoundError \<and>
   extractVideoURL (Some JNull) ''youtube'' = Inl noResultsError"
proof -
  let ?m1 = "[(''video_url'', JString []), (''downloadUrl'', JString ''https://d/1''),
              (''videoPlayUrl'', JString ''https://p/2'')]"
  let ?r1 = "Some (JArray [JObject ?m1, JNull])"
  let ?fs2 = "[JObject [(''url'', JString ''a'')], JObject [(''url'', JString ''b'')]]"
  let ?m2 = "[(''videoUrl'', JNumber ''1''), (''formats'', JArray ?fs2)]"
  let ?r2 = "Some (JArray [JObject ?m2])"
  let ?m3 = "[(''formats'', JArray [JObject [(''url'', JString ''a'')], JString ''b''])]"
  let ?r3 = "Some (JArray [JObject ?m3])"
  have u1: "unmarshalItems ?r1 = Inr (?m1 # [ [] ])" by simp
  have k0: "nonEmptyStringAt ?m1 ''videoUrl'' = None"
    and k1: "nonEmptyStringAt ?m1 ''video_url'' = None"
    and k2: "nonEmptyStringAt ?m1 ''downloadUrl'' = Some ''https://d/1''"
    by (simp_all add: nonEmptyStringAt_def lookupKey_def)
  have pre1: "nonEmptyStringAt ?m1 (fieldNames ! 2) = Some ''https://d/1'' \<and>
      (\<forall>j < 2. nonEmptyStringAt ?m1 (fieldNames ! j) = None)"
    using k0 k1 k2 by (simp add: fieldNames_def less_Suc_eq numeral_2_eq_2)
  have len: "2 < length fieldNames" by (simp add: fieldNames_def)
  have a: "extractVideoURL ?r1 ''tiktok'' = Inr ''https://d/1''"
    using extractVideoURL_spec [of ?r1 "''tiktok''" ?m1 "[ [] ]"] u1 pre1 len
    by blast
  have u2: "unmarshalItems ?r2 = Inr (?m2 # [])" by simp
  have n2: "\<forall>f \<in> set fieldNames. nonEmptyStringAt ?m2 f = None"
    by (simp add: fieldNames_def nonEmptyStringAt_def lookupKey_def)
  have f2: "lookupKey ?m2 ''formats'' = Some (JArray ?fs2) \<and> ?fs2 \<noteq> [] \<and>
      last ?fs2 = JObject [(''url'', JString ''b'')] \<and>
      nonEmptyStringAt [(''url'', JString ''b'')] ''url'' = Some ''b''"
    by (simp add: nonEmptyStringAt_def lookupKey_def)
  have b: "extractVideoURL ?r2 ''youtube'' = Inr ''b''"
    using extractVideoURL_spec [of ?r2 "''youtube''" ?m2 "[]"] u2 n2 f2
    by blast
  have u3: "unmarshalItems ?r3 = Inr (?m3 # [])" by simp
  have n3: "\<forall>f \<in> set fieldNames. nonEmptyStringAt ?m3 f = None"
    by (simp add: fieldNames_def nonEmptyStringAt_def lookupKey_def)
  have f3: "\<nexists>fs fm u. lookupKey ?m3 ''formats'' = Some (JArray fs) \<and> fs \<noteq> [] \<and>
      last fs = JObject fm \<and> nonEmptyStringAt fm ''url'' = Some u"
    by (auto simp: lookupKey_def)
  have c: "extractVideoURL ?r3 ''youtube'' = Inl videoURLNotFoundError"
    using extractVideoURL_spec [of ?r3 "''youtube''" ?m3 "[]"] u3 n3 f3
    by blast
  have u4: "unmarshalItems (Some JNull) = Inr []" by simp
  have d: "extractVideoURL (Some JNull) ''youtube'' = Inl noResultsError"
    using extractVideoURL_spec [of "Some JNull" "''youtube''"] u4 by blast
  from a b c d show ?thesis by simp
qed

section \<open>Properties of the polling loop\<close>

lemma wait_running_prefix:
  "list_all stillRunning pre \<Longrightarrow>
   waitAndGetResults getItems runID (pre @ rest) =
     (fst (waitAndGetResults getItems runID rest),
      replicate (length pre) (GetStatus runID) @ snd (waitAndGetResults getItems runID rest))"
proof (induction pre)
  case Nil
  show ?case by simp
next
  case (Cons r pre)
  from Cons.prems obtain st ds where r: "r = Tick (Status st ds)" and nt: "\<not> isTerminal st"
    by (cases r rule: stillRunning.cases) auto
  from Cons have IH: "waitAndGetResults getItems runID (pre @ rest) =
     (fst (waitAndGetResults getItems runID rest),
      replicate (length pre) (GetStatus runID) @ snd (waitAndGetResults getItems runID rest))"
    by simp
  from nt have "st \<noteq> ''SUCCEEDED''" "\<not> st \<in> set failedStatuses"
    by (auto simp: isTerminal_def)
  then show ?case using r IH by simp
qed

text \<open>
  Claim C6. Take any rounds in which the timer fires and a non-terminal status is
  received (\<open>pre\<close>), followed by one more round and anything after it (\<open>post\<close>).
  If that round brings \<open>SUCCEEDED\<close>, the loop returns what fetching the dataset
  returns, having sent one status request per round and then the dataset request. If
  it brings \<open>FAILED\<close>, \<open>ABORTED\<close> or \<open>TIMED-OUT\<close>, the loop returns the error
  naming that status, having sent one status request per round. If the context is done
  during the wait of that round, the loop returns the context's error and sends no
  request in that round. In all three cases \<open>post\<close> plays no part: nothing is sent
  after the exit. While only non-terminal statuses arrive the loop has not returned.
\<close>

theorem waitAndGetResults_exits_at_first_terminal:
  "list_all stillRunning pre \<Longrightarrow>
   waitAndGetResults getItems runID (pre @ Tick (Status ''SUCCEEDED'' ds) # post)
     = (Some (getItems ds), replicate (length pre + 1) (GetStatus runID) @ [GetItems ds]) \<and>
   (st \<in> set failedStatuses \<longrightarrow>
      waitAndGetResults getItems runID (pre @ Tick (Status st ds) # post)
        = (Some (Inl (taskFailedError st)), replicate (length pre + 1) (GetStatus runID)) \<and>
      msg (taskFailedError st) = ''actor run failed with status: '' @ st) \<and>
   waitAndGetResults getItems runID (pre @ CtxDone err # post)
     = (Some (Inl err), replicate (length pre) (GetStatus runID)) \<and>
   waitAndGetResults getItems runID pre = (None, replicate (length pre) (GetStatus runID))"
proof -
  assume p: "list_all stillRunning pre"
  have s: "waitAndGetResults getItems runID (Tick (Status ''SUCCEEDED'' ds) # post)
      = (Some (getItems ds), [GetStatus runID, GetItems ds])"
    by (simp add: getDatasetItems_def)
  have f: "st \<in> set failedStatuses \<Longrightarrow>
     waitAndGetResults getItems runID (Tick (Status st ds) # post)
      = (Some (Inl (taskFailedError st)), [GetStatus runID])"
    by (auto simp: failedStatuses_def)
  have c: "waitAndGetResults getItems runID (CtxDone err # post) = (Some (Inl err), [])"
    by simp
  have n: "waitAndGetResults getItems runID pre = (None, replicate (length pre) (GetStatus runID))"
    using wait_running_prefix [OF p, of getItems runID "[]"] by simp
  have r: "replicate (length pre) (GetStatus runID) @ [GetStatus runID]
     = replicate (length pre + 1) (GetStatus runID)"
    by (simp add: replicate_append_same)
  show ?thesis
    using wait_running_prefix [OF p, of getItems runID] s f c n r
    by (simp add: taskFailedError_def)
qed


theorem waitAndGetResults_exits_at_first_terminal_witness:
  "waitAndGetResults (\<lambda>d. Inr ''[]'') ''r1''
     [Tick (Status ''READY'' []), Tick (Status ''RUNNING'' []),
      Tick (Status ''SUCCEEDED'' ''d1''), Tick (Status ''RUNNING'' [])]
     = (Some (Inr ''[]''), [GetStatus ''r1'', GetStatus ''r1'', GetStatus ''r1'', GetItems ''d1'']) \<and>
   waitAndGetResults (\<lambda>d. Inr ''[]'') ''r1''
     [Tick (Status ''READY'' []), Tick (Status ''RUNNING'' []),
      Tick (Status ''TIMED-OUT'' ''d1''), Tick (Status ''SUCCEEDED'' ''d1'')]
     = (Some (Inl (Error ''actor run failed with status: TIMED-OUT'')),
        [GetStatus ''r1'', GetStatus ''r1'', GetStatus ''r1'']) \<and>
   waitAndGetResults (\<lambda>d. Inr ''[]'') ''r1''
     [Tick (Status ''READY'' []), Tick (Status ''RUNNING'' []),
      CtxDone (Error ''context canceled''), Tick (Status ''SUCCEEDED'' ''d1'')]
     = (Some (Inl (Error ''context canceled'')), [GetStatus ''r1'', GetStatus ''r1'']) \<and>
   waitAndGetResults (\<lambda>d. Inr ''[]'') ''r1''
     [Tick (Status ''READY'' []), Tick (Status ''RUNNING'' [])]
     = (None, [GetStatus ''r1'', GetStatus ''r1''])"
proof -
  let ?pre = "[Tick (Status ''READY'' []), Tick (Status ''RUNNING'' [])]"
  have p: "list_all stillRunning ?pre"
    by (simp add: isTerminal_def failedStatuses_def)
  have m: "''TIMED-OUT'' \<in> set failedStatuses"
    by (simp add: failedStatuses_def)
  show ?thesis
    using waitAndGetResults_exits_at_first_terminal
      [OF p, of "\<lambda>d. Inr ''[]''" "''r1''" "''d1''" "[Tick (Status ''RUNNING'' [])]"
         "''TIMED-OUT''" "Error ''context canceled''"]
      waitAndGetResults_exits_at_first_terminal
      [OF p, of "\<lambda>d. Inr ''[]''" "''r1''" "''d1''" "[Tick (Status ''SUCCEEDED'' ''d1'')]"
         "''TIMED-OUT''" "Error ''context canceled''"] m
    by (simp add: taskFailedError_def numeral_3_eq_3 numeral_2_eq_2)
qed

section \<open>Properties of the external resolution tool\<close>

lemma dropWhile_rev_keep:
  assumes "\<not> P x"
  shows "rev (dropWhile P (rev (x # xs))) = x # rev (dropWhile P (rev xs))"
proof -
  have "dropWhile P (rev xs @ [x]) = dropWhile P (rev xs) @ [x]"
    using assms by (simp add: dropWhile_append)
  then show ?thesis by simp
qed

lemma TrimSpace_head:
  "TrimSpace s \<noteq> [] \<Longrightarrow> \<not> isSpace (hd (TrimSpace s))"
proof -
  assume ne: "TrimSpace s \<noteq> []"
  have d: "dropWhile isSpace s \<noteq> []"
  proof
    assume e: "dropWhile isSpace s = []"
    have "TrimSpace s = []"
      by (simp only: TrimSpace_def e rev.simps dropWhile.simps)
    with ne show False by simp
  qed
  then obtain x xs where xs: "dropWhile isSpace s = x # xs" by (cases "dropWhile isSpace s") auto
  then have "\<not> isSpace x" by (metis hd_dropWhile list.sel(1) d)
  then have "TrimSpace s = x # rev (dropWhile isSpace (rev xs))"
    unfolding TrimSpace_def xs by (rule dropWhile_rev_keep)
  with \<open>\<not> isSpace x\<close> show ?thesis by simp
qed

lemma isSpace_lineFeed: "isSpace lineFeed"
  by (simp add: isSpace_def lineFeed_def)

lemma splitLines_nonempty: "splitLines s \<noteq> []"
  by (induction s) (auto split: list.splits)

lemma splitLines_hd: "s \<noteq> [] \<Longrightarrow> hd s \<noteq> lineFeed \<Longrightarrow> hd (splitLines s) \<noteq> []"
  by (cases s) (auto split: list.splits)

lemma splitLines_first:
  "lineFeed \<notin> set a \<Longrightarrow> splitLines (a @ lineFeed # b) = a # splitLines b"
  by (induction a) (auto split: list.splits)

lemma splitLines_single: "lineFeed \<notin> set a \<Longrightarrow> splitLines a = [a]"
  by (induction a) (auto split: list.splits)

lemma GetVideoURL_ok:
  "runErr c = None \<Longrightarrow> TrimSpace (stdout c) \<noteq> [] \<Longrightarrow>
   GetVideoURL c = (hd (splitLines (TrimSpace (stdout c))), None) \<and>
   hd (splitLines (TrimSpace (stdout c))) \<noteq> []"
proof -
  assume r: "runErr c = None" and t: "TrimSpace (stdout c) \<noteq> []"
  have "hd (TrimSpace (stdout c)) \<noteq> lineFeed"
    using TrimSpace_head [OF t] isSpace_lineFeed by auto
  with t have "hd (splitLines (TrimSpace (stdout c))) \<noteq> []" by (rule splitLines_hd)
  moreover have "GetVideoURL c = (hd (splitLines (TrimSpace (stdout c))), None)"
    using r t splitLines_nonempty [of "TrimSpace (stdout c)"]
    by (simp add: GetVideoURL_def Let_def hd_conv_nth)
  ultimately show ?thesis by simp
qed

lemma GetVideoURL_fail:
  "\<not> (runErr c = None \<and> TrimSpace (stdout c) \<noteq> []) \<Longrightarrow>
   fst (GetVideoURL c) = [] \<and> snd (GetVideoURL c) \<noteq> None"
  by (auto simp: GetVideoURL_def Let_def split: option.splits)

section \<open>The paths through the orchestrator\<close>

lemma resolveVideoURL_Inr:
  "resolveVideoURL w job sr res tr = Inr (u, tr2) \<longleftrightarrow>
     (Platform job = ''youtube'' \<and> GetVideoURL (runYtDlp w (ytdlpArgs (URL job))) = (u, None) \<and>
        u \<noteq> [] \<and> tr2 = tr @ [RunTool ytdlpTimeoutSeconds (ytdlpArgs (URL job)) None]) \<or>
     (Platform job \<noteq> ''youtube'' \<and> u = VideoURL sr \<and> u \<noteq> [] \<and> tr2 = tr)"
  by (cases "GetVideoURL (runYtDlp w (ytdlpArgs (URL job)))")
     (auto simp: resolveVideoURL_def Let_def split: if_splits)

lemma resolveVideoURL_Inl:
  "resolveVideoURL w job sr res tr = Inl (r, err, tr2) \<longleftrightarrow>
     (Platform job = ''youtube'' \<and>
        (\<exists>u. GetVideoURL (runYtDlp w (ytdlpArgs (URL job))) = (u, err) \<and> \<not> (err = None \<and> u \<noteq> [])) \<and>
        r = res\<lparr>ErrorMessage := ''yt-dlp failed: '' @ fmtV err\<rparr> \<and>
        tr2 = tr @ [RunTool ytdlpTimeoutSeconds (ytdlpArgs (URL job)) err]) \<or>
     (Platform job \<noteq> ''youtube'' \<and> VideoURL sr = [] \<and> r = res \<and>
        err = Some (Error ''no video url resolved'') \<and> tr2 = tr)"
  by (cases "GetVideoURL (runYtDlp w (ytdlpArgs (URL job)))")
     (auto simp: resolveVideoURL_def Let_def split: if_splits)


lemma downloadAndSave_paths:
  assumes "downloadAndSave w jid u res tr0 = (r, err, tr)"
  obtains
    (download) e where "download w u = Inl e"
      "r = res\<lparr>ErrorMessage := ''failed to download video: '' @ msg e\<rparr>"
      "err = Some e" "tr = tr0 @ [Download u (Some e)]"
  | (save) rd e where "download w u = Inr rd" "saveVideo w jid rd ''video.mp4'' = Some e"
      "r = res\<lparr>ErrorMessage := ''failed to save video: '' @ msg e\<rparr>"
      "err = Some e"
      "tr = tr0 @ [Download u None, SaveVideo jid rd ''video.mp4'' (Some e), CloseReader]"
  | (ok) rd where "download w u = Inr rd" "saveVideo w jid rd ''video.mp4'' = None"
      "r = res\<lparr>VideoPath := getJobPath w jid @ ''/video.mp4'', Success := True,
                 CompletedAt := nowCompleted w\<rparr>"
      "err = None"
      "tr = tr0 @ [Download u None, SaveVideo jid rd ''video.mp4'' None, CloseReader]"
proof (cases "download w u")
  case (Inl e)
  show ?thesis
    by (rule download [OF Inl]) (use assms Inl in \<open>auto simp: downloadAndSave_def\<close>)
next
  case (Inr rd)
  show ?thesis
  proof (cases "saveVideo w jid rd ''video.mp4''")
    case None
    show ?thesis
      by (rule ok [OF Inr None]) (use assms Inr None in \<open>auto simp: downloadAndSave_def\<close>)
  next
    case (Some e)
    show ?thesis
      by (rule save [OF Inr Some]) (use assms Inr Some in \<open>auto simp: downloadAndSave_def\<close>)
  qed
qed

lemma RunJob_paths:
  fixes w url
  defines "jid \<equiv> newUUID w"
  defines "job \<equiv> newJob w url"
  defines "res0 \<equiv> newResult (newJob w url)"
  defines "t2 \<equiv> [InitJob (newUUID w) None,
                  SaveInput (newUUID w) (marshalIndent w (newJob w url))
                    (saveInput w (newUUID w) (marshalIndent w (newJob w url)))]"
  assumes run: "RunJob w url = (r, err, tr)"
  obtains
    (init) e where "initJob w jid = Some e"
      "r = res0\<lparr>ErrorMessage := ''failed to init job: '' @ msg e\<rparr>"
      "err = Some e" "tr = [InitJob jid (Some e)]"
  | (scrape) e where "initJob w jid = None" "scrape w url = Inl e"
      "r = res0\<lparr>ErrorMessage := ''failed to scrape metadata: '' @ msg e\<rparr>"
      "err = Some e" "tr = t2 @ [ScrapeCall url (Some e)]"
  | (metadata) sr e where "initJob w jid = None" "scrape w url = Inr sr"
      "saveMetadata w jid (RawMetadata sr) = Some e"
      "r = res0\<lparr>ErrorMessage := ''failed to save metadata: '' @ msg e\<rparr>"
      "err = Some e"
      "tr = t2 @ [ScrapeCall url None, SaveMetadata jid (RawMetadata sr) (Some e)]"
  | (resolve) sr where "initJob w jid = None" "scrape w url = Inr sr"
      "saveMetadata w jid (RawMetadata sr) = None"
      "resolveVideoURL w job sr
         (res0\<lparr>MetadataPath := getJobPath w jid @ ''/metadata_raw.json''\<rparr>)
         (t2 @ [ScrapeCall url None, SaveMetadata jid (RawMetadata sr) None])
       = Inl (r, err, tr)"
  | (proceed) sr u tr2 where "initJob w jid = None" "scrape w url = Inr sr"
      "saveMetadata w jid (RawMetadata sr) = None"
      "resolveVideoURL w job sr
         (res0\<lparr>MetadataPath := getJobPath w jid @ ''/metadata_raw.json''\<rparr>)
         (t2 @ [ScrapeCall url None, SaveMetadata jid (RawMetadata sr) None])
       = Inr (u, tr2)"
      "downloadAndSave w jid u
         (res0\<lparr>MetadataPath := getJobPath w jid @ ''/metadata_raw.json''\<rparr>) tr2
       = (r, err, tr)"
proof (cases "initJob w jid")
  case (Some e)
  show ?thesis
    by (rule init [OF Some])
       (use run Some in \<open>auto simp: RunJob_def jid_def res0_def Let_def\<close>)
next
  case i: None
  show ?thesis
  proof (cases "scrape w url")
    case (Inl e)
    show ?thesis
      by (rule scrape [OF i Inl])
         (use run i Inl in \<open>auto simp: RunJob_def jid_def res0_def t2_def Let_def\<close>)
  next
    case (Inr sr)
    show ?thesis
    proof (cases "saveMetadata w jid (RawMetadata sr)")
      case (Some e)
      show ?thesis
        by (rule metadata [OF i Inr Some])
           (use run i Inr Some in \<open>auto simp: RunJob_def jid_def res0_def t2_def Let_def\<close>)
    next
      case None
      show ?thesis
      proof (cases "resolveVideoURL w job sr
         (res0\<lparr>MetadataPath := getJobPath w jid @ ''/metadata_raw.json''\<rparr>)
         (t2 @ [ScrapeCall url None, SaveMetadata jid (RawMetadata sr) None])")
        case (Inl early)
        have "early = (r, err, tr)"
          using run i Inr None Inl
          by (simp add: RunJob_def jid_def res0_def t2_def job_def Let_def)
        with Inl show ?thesis by (intro resolve [OF i Inr None]) simp
      next
        case r: (Inr p)
        obtain u tr2 where p: "p = (u, tr2)" by (cases p)
        have "downloadAndSave w jid u
           (res0\<lparr>MetadataPath := getJobPath w jid @ ''/metadata_raw.json''\<rparr>) tr2
           = (r, err, tr)"
          using run i Inr None r p
          by (simp add: RunJob_def jid_def res0_def t2_def job_def Let_def)
        with r p show ?thesis by (intro proceed [OF i Inr None]) simp_all
      qed
    qed
  qed
qed

section \<open>Success flag and completion time\<close>


lemma run_download_fails:
  "RunJob downloadFailsWorld tiktokURL =
     (\<lparr>Job = \<lparr>ID = ''job-1'', URL = ''https://tiktok.com/@u/video/1'', Platform = ''tiktok'',
               CreatedAt = 100\<rparr>,
       MetadataPath = ''out/jobs/job-1/metadata_raw.json'', VideoPath = [],
       Success = False,
       ErrorMessage = ''failed to download video: unexpected status code: 404'',
       CompletedAt = 0\<rparr>,
      Some (Error ''unexpected status code: 404''),
      [InitJob ''job-1'' None, SaveInput ''job-1'' ''{}'' None,
       ScrapeCall ''https://tiktok.com/@u/video/1'' None,
       SaveMetadata ''job-1'' ''[{}]'' None,
       Download ''https://cdn/v.mp4'' (Some (Error ''unexpected status code: 404''))])"
  by code_simp

lemma RunJob_Success_oracles:
  assumes run: "RunJob w url = (r, err, tr)"
  shows "Success r =
     (initJob w (newUUID w) = None \<and>
      (\<exists>sr. scrape w url = Inr sr \<and>
         saveMetadata w (newUUID w) (RawMetadata sr) = None \<and>
         (\<exists>u rd.
            ((detectPlatform url = ''youtube'' \<and>
              GetVideoURL (runYtDlp w (ytdlpArgs url)) = (u, None) \<and> u \<noteq> []) \<or>
             (detectPlatform url \<noteq> ''youtube'' \<and> u = VideoURL sr \<and> u \<noteq> [])) \<and>
            download w u = Inr rd \<and>
            saveVideo w (newUUID w) rd ''video.mp4'' = None)))"
    (is "Success r = ?C")
proof -
  have job: "Platform (newJob w url) = detectPlatform url" "URL (newJob w url) = url"
    by (simp_all add: newJob_def)
  from run show ?thesis
  proof (cases rule: RunJob_paths)
    case (init e)
    then show ?thesis by (simp add: newResult_def)
  next
    case (scrape e)
    then show ?thesis by (simp add: newResult_def)
  next
    case (metadata sr e)
    then show ?thesis by (simp add: newResult_def)
  next
    case (resolve sr)
    from resolve(4) [unfolded resolveVideoURL_Inl job]
    have s: "\<not> Success r" by (auto simp: newResult_def)
    from resolve(4) [unfolded resolveVideoURL_Inl job]
    have n: "\<not> (\<exists>u. (detectPlatform url = ''youtube'' \<and>
              GetVideoURL (runYtDlp w (ytdlpArgs url)) = (u, None) \<and> u \<noteq> []) \<or>
             (detectPlatform url \<noteq> ''youtube'' \<and> u = VideoURL sr \<and> u \<noteq> []))"
      by auto
    have "\<not> ?C"
    proof
      assume ?C
      then obtain sr' u where "scrape w url = Inr sr'"
        "(detectPlatform url = ''youtube'' \<and>
              GetVideoURL (runYtDlp w (ytdlpArgs url)) = (u, None) \<and> u \<noteq> []) \<or>
             (detectPlatform url \<noteq> ''youtube'' \<and> u = VideoURL sr' \<and> u \<noteq> [])"
        by blast
      with resolve(2) n show False by auto
    qed
    with s show ?thesis by simp
  next
    case (proceed sr u tr2)
    from proceed(4) [unfolded resolveVideoURL_Inr job]
    have u: "(detectPlatform url = ''youtube'' \<and>
              GetVideoURL (runYtDlp w (ytdlpArgs url)) = (u, None) \<and> u \<noteq> []) \<or>
             (detectPlatform url \<noteq> ''youtube'' \<and> u = VideoURL sr \<and> u \<noteq> [])"
      by blast
    have uniq: "\<And>sr' u'. scrape w url = Inr sr' \<Longrightarrow>
        (detectPlatform url = ''youtube'' \<and>
              GetVideoURL (runYtDlp w (ytdlpArgs url)) = (u', None) \<and> u' \<noteq> []) \<or>
             (detectPlatform url \<noteq> ''youtube'' \<and> u' = VideoURL sr' \<and> u' \<noteq> [])
        \<Longrightarrow> sr' = sr \<and> u' = u"
      using u proceed(2) by auto
    from proceed(5) show ?thesis
    proof (cases rule: downloadAndSave_paths)
      case (download e)
      have "\<not> ?C"
      proof
        assume ?C
        then obtain sr' u' rd where "scrape w url = Inr sr'"
          "(detectPlatform url = ''youtube'' \<and>
              GetVideoURL (runYtDlp w (ytdlpArgs url)) = (u', None) \<and> u' \<noteq> []) \<or>
             (detectPlatform url \<noteq> ''youtube'' \<and> u' = VideoURL sr' \<and> u' \<noteq> [])"
          "download w u' = Inr rd"
          by blast
        with uniq download(1) show False by fastforce
      qed
      with download show ?thesis by (simp add: newResult_def)
    next
      case (save rd e)
      have "\<not> ?C"
      proof
        assume ?C
        then obtain sr' u' rd' where "scrape w url = Inr sr'"
          "(detectPlatform url = ''youtube'' \<and>
              GetVideoURL (runYtDlp w (ytdlpArgs url)) = (u', None) \<and> u' \<noteq> []) \<or>
             (detectPlatform url \<noteq> ''youtube'' \<and> u' = VideoURL sr' \<and> u' \<noteq> [])"
          "download w u' = Inr rd'" "saveVideo w (newUUID w) rd' ''video.mp4'' = None"
          by blast
        with uniq save(1,2) show False by fastforce
      qed
      with save show ?thesis by (simp add: newResult_def)
    next
      case (ok rd)
      from proceed(1,2,3) u ok(1,2) have ?C by blast
      with ok show ?thesis by simp
    qed
  qed
qed

lemma RunJob_trace_written:
  assumes run: "RunJob w url = (r, err, tr)"
  shows "list_ex videoWritten tr = Success r"
    and "list_ex metadataWritten tr =
      (initJob w (newUUID w) = None \<and>
       (\<exists>sr. scrape w url = Inr sr \<and> saveMetadata w (newUUID w) (RawMetadata sr) = None))"
    and "Success r \<longrightarrow> err = None"
proof -
  from run show "Success r \<longrightarrow> err = None"
  proof (cases rule: RunJob_paths)
    case (resolve sr)
    then show ?thesis by (auto simp: resolveVideoURL_Inl newResult_def)
  next
    case (proceed sr u tr2)
    from proceed(5) show ?thesis
      by (cases rule: downloadAndSave_paths) (auto simp: newResult_def)
  qed (auto simp: newResult_def)
  from run show "list_ex videoWritten tr = Success r"
  proof (cases rule: RunJob_paths)
    case (resolve sr)
    then show ?thesis by (auto simp: resolveVideoURL_Inl newResult_def)
  next
    case (proceed sr u tr2)
    from proceed(4) have tr2: "\<not> list_ex videoWritten tr2"
      by (auto simp: resolveVideoURL_Inr)
    from proceed(5) show ?thesis
      by (cases rule: downloadAndSave_paths) (use tr2 in \<open>auto simp: newResult_def\<close>)
  qed (auto simp: newResult_def)
  from run show "list_ex metadataWritten tr =
      (initJob w (newUUID w) = None \<and>
       (\<exists>sr. scrape w url = Inr sr \<and> saveMetadata w (newUUID w) (RawMetadata sr) = None))"
  proof (cases rule: RunJob_paths)
    case (resolve sr)
    then show ?thesis by (auto simp: resolveVideoURL_Inl)
  next
    case (proceed sr u tr2)
    from proceed(4) have tr2: "list_ex metadataWritten tr2"
      by (auto simp: resolveVideoURL_Inr)
    from proceed(5) have "list_ex metadataWritten tr"
      by (cases rule: downloadAndSave_paths) (use tr2 in auto)
    with proceed(1,2,3) show ?thesis by simp
  qed auto
qed

text \<open>
  Claim C1. For every run of \<open>RunJob\<close>, the \<open>Success\<close> flag of the returned
  \<open>JobResult\<close> is true exactly when the storage sink answered nil to both writes:
  \<open>InitJob\<close> and \<open>Scrape\<close> succeeded, \<open>SaveMetadata\<close> returned nil on the scraped
  bytes, a video URL was resolved, the download of it succeeded, and \<open>SaveVideo\<close>
  returned nil on the downloaded stream. The trace agrees with the sink: it holds a
  \<open>SaveMetadata\<close> that returned nil exactly when the sink returned nil there, and a
  \<open>SaveVideo\<close> that returned nil exactly when the job succeeded. A run that returns
  an error returns \<open>Success = false\<close>.
\<close>

theorem RunJob_success_iff:
  "RunJob w url = (r, err, tr) \<Longrightarrow>
   Success r =
     (initJob w (newUUID w) = None \<and>
      (\<exists>sr. scrape w url = Inr sr \<and>
         saveMetadata w (newUUID w) (RawMetadata sr) = None \<and>
         (\<exists>u rd.
            ((detectPlatform url = ''youtube'' \<and>
              GetVideoURL (runYtDlp w (ytdlpArgs url)) = (u, None) \<and> u \<noteq> []) \<or>
             (detectPlatform url \<noteq> ''youtube'' \<and> u = VideoURL sr \<and> u \<noteq> [])) \<and>
            download w u = Inr rd \<and>
            saveVideo w (newUUID w) rd ''video.mp4'' = None))) \<and>
   list_ex metadataWritten tr =
     (initJob w (newUUID w) = None \<and>
      (\<exists>sr. scrape w url = Inr sr \<and> saveMetadata w (newUUID w) (RawMetadata sr) = None)) \<and>
   list_ex videoWritten tr = Success r \<and>
   Success r = (list_ex metadataWritten tr \<and> list_ex videoWritten tr) \<and>
   (err \<noteq> None \<longrightarrow> \<not> Success r)"
proof -
  assume run: "RunJob w url = (r, err, tr)"
  note S = RunJob_Success_oracles [OF run]
  note T = RunJob_trace_written [OF run]
  have "Success r \<longrightarrow> list_ex metadataWritten tr"
    unfolding S T(2) by blast
  with T(1) have 4: "Success r = (list_ex metadataWritten tr \<and> list_ex videoWritten tr)"
    by blast
  from T(3) have 5: "err \<noteq> None \<longrightarrow> \<not> Success r" by blast
  from S T(2) T(1) 4 5 show ?thesis by (intro conjI)
qed



theorem RunJob_success_iff_witness:
  "Success (fst (RunJob okWorld tiktokURL)) \<and>
   list_ex metadataWritten (snd (snd (RunJob okWorld tiktokURL))) \<and>
   list_ex videoWritten (snd (snd (RunJob okWorld tiktokURL))) \<and>
   saveVideo okWorld ''job-1'' ''bytes'' ''video.mp4'' = None \<and>
   download downloadFailsWorld ''https://cdn/v.mp4'' = Inl (Error ''unexpected status code: 404'') \<and>
   fst (snd (RunJob downloadFailsWorld tiktokURL)) \<noteq> None \<and>
   \<not> Success (fst (RunJob downloadFailsWorld tiktokURL)) \<and>
   list_ex metadataWritten (snd (snd (RunJob downloadFailsWorld tiktokURL))) \<and>
   \<not> list_ex videoWritten (snd (snd (RunJob downloadFailsWorld tiktokURL)))"
proof -
  have split: "\<And>w url. RunJob w url
      = (fst (RunJob w url), fst (snd (RunJob w url)), snd (snd (RunJob w url)))"
    by simp
  have t: "detectPlatform tiktokURL \<noteq> ''youtube''" by code_simp
  note K = RunJob_success_iff [OF split [of okWorld tiktokURL]]
  note F = RunJob_success_iff [OF split [of downloadFailsWorld tiktokURL]]
  have ok: "initJob okWorld (newUUID okWorld) = None \<and>
      (\<exists>sr. scrape okWorld tiktokURL = Inr sr \<and>
         saveMetadata okWorld (newUUID okWorld) (RawMetadata sr) = None \<and>
         (\<exists>u rd.
            ((detectPlatform tiktokURL = ''youtube'' \<and>
              GetVideoURL (runYtDlp okWorld (ytdlpArgs tiktokURL)) = (u, None) \<and> u \<noteq> []) \<or>
             (detectPlatform tiktokURL \<noteq> ''youtube'' \<and> u = VideoURL sr \<and> u \<noteq> [])) \<and>
            download okWorld u = Inr rd \<and>
            saveVideo okWorld (newUUID okWorld) rd ''video.mp4'' = None))"
    using t by (simp add: okWorld_def)
  have bad: "\<not> (initJob downloadFailsWorld (newUUID downloadFailsWorld) = None \<and>
      (\<exists>sr. scrape downloadFailsWorld tiktokURL = Inr sr \<and>
         saveMetadata downloadFailsWorld (newUUID downloadFailsWorld) (RawMetadata sr) = None \<and>
         (\<exists>u rd.
            ((detectPlatform tiktokURL = ''youtube'' \<and>
              GetVideoURL (runYtDlp downloadFailsWorld (ytdlpArgs tiktokURL)) = (u, None) \<and> u \<noteq> []) \<or>
             (detectPlatform tiktokURL \<noteq> ''youtube'' \<and> u = VideoURL sr \<and> u \<noteq> [])) \<and>
            download downloadFailsWorld u = Inr rd \<and>
            saveVideo downloadFailsWorld (newUUID downloadFailsWorld) rd ''video.mp4'' = None)))"
    by (simp add: downloadFailsWorld_def okWorld_def)
  have meta: "initJob downloadFailsWorld (newUUID downloadFailsWorld) = None \<and>
      (\<exists>sr. scrape downloadFailsWorld tiktokURL = Inr sr \<and>
         saveMetadata downloadFailsWorld (newUUID downloadFailsWorld) (RawMetadata sr) = None)"
    by (simp add: downloadFailsWorld_def okWorld_def)
  have 1: "Success (fst (RunJob okWorld tiktokURL))"
    using K [THEN conjunct1] ok by (rule iffD2)
  have 2: "list_ex videoWritten (snd (snd (RunJob okWorld tiktokURL)))"
    using K [THEN conjunct2, THEN conjunct2, THEN conjunct1] 1 by (rule iffD2)
  from K [THEN conjunct2, THEN conjunct2, THEN conjunct2, THEN conjunct1] 1
  have 3: "list_ex metadataWritten (snd (snd (RunJob okWorld tiktokURL)))" by blast
  have 4: "\<not> Success (fst (RunJob downloadFailsWorld tiktokURL))"
    using F [THEN conjunct1] bad by blast
  from F [THEN conjunct2, THEN conjunct2, THEN conjunct1] 4
  have 5: "\<not> list_ex videoWritten (snd (snd (RunJob downloadFailsWorld tiktokURL)))" by blast
  have 6: "list_ex metadataWritten (snd (snd (RunJob downloadFailsWorld tiktokURL)))"
    using F [THEN conjunct2, THEN conjunct1] meta by (rule iffD2)
  have 7: "saveVideo okWorld ''job-1'' ''bytes'' ''video.mp4'' = None"
    by (simp add: okWorld_def)
  have 8: "download downloadFailsWorld ''https://cdn/v.mp4'' = Inl (Error ''unexpected status code: 404'')"
    by (simp add: downloadFailsWorld_def)
  have 9: "fst (snd (RunJob downloadFailsWorld tiktokURL)) \<noteq> None"
    by (simp add: run_download_fails)
  from 1 2 3 4 5 6 7 8 9 show ?thesis by (intro conjI)
qed


section \<open>URL resolution by platform\<close>

lemmas trace_simps = toolCalls_def downloadCalls_def List.map_filter_def

text \<open>
  Claim C7. Once the metadata is saved, the way the video URL is obtained depends on the
  platform tag alone. For a \<open>youtube\<close> job \<open>GetVideoURL\<close> is called once, with the
  two-minute timeout and the arguments \<open>-f b --get-url --no-warnings url\<close>; when the tool
  succeeds with a non-blank output the downloader is called with the first line of the
  trimmed output (so with the first URL when several are separated by line feeds);
  when the tool fails or prints nothing the job fails with an error and the downloader
  is never called. For a \<open>tiktok\<close> job the tool is never called and the downloader
  gets the \<open>VideoURL\<close> of the scrape result (an empty one fails the job). The output
  of the tool is taken to be ASCII, where \<open>TrimSpace\<close> is what Go's function does.
\<close>

theorem RunJob_resolution_by_platform:
  assumes i: "initJob w (newUUID w) = None"
    and s: "scrape w url = Inr sr"
    and m: "saveMetadata w (newUUID w) (RawMetadata sr) = None"
    and a: "isASCII (stdout (runYtDlp w (ytdlpArgs url)))"
    and run: "RunJob w url = (r, err, tr)"
  shows
    "(detectPlatform url = ''youtube'' \<longrightarrow>
        toolCalls tr = [(120, [''-f'', ''b'', ''--get-url'', ''--no-warnings'', url])] \<and>
        (runErr (runYtDlp w (ytdlpArgs url)) = None \<and>
         TrimSpace (stdout (runYtDlp w (ytdlpArgs url))) \<noteq> [] \<longrightarrow>
           downloadCalls tr = [hd (splitLines (TrimSpace (stdout (runYtDlp w (ytdlpArgs url)))))] \<and>
           (\<forall>u rest. TrimSpace (stdout (runYtDlp w (ytdlpArgs url))) = u @ lineFeed # rest \<and>
                      lineFeed \<notin> set u \<longrightarrow> downloadCalls tr = [u])) \<and>
        (\<not> (runErr (runYtDlp w (ytdlpArgs url)) = None \<and>
            TrimSpace (stdout (runYtDlp w (ytdlpArgs url))) \<noteq> []) \<longrightarrow>
           downloadCalls tr = [] \<and> err \<noteq> None \<and> \<not> Success r)) \<and>
     (detectPlatform url = ''tiktok'' \<longrightarrow>
        toolCalls tr = [] \<and>
        (VideoURL sr \<noteq> [] \<longrightarrow> downloadCalls tr = [VideoURL sr]) \<and>
        (VideoURL sr = [] \<longrightarrow> downloadCalls tr = [] \<and> err \<noteq> None \<and> \<not> Success r))"
proof -
  let ?c = "runYtDlp w (ytdlpArgs url)"
  have job: "Platform (newJob w url) = detectPlatform url" "URL (newJob w url) = url"
    by (simp_all add: newJob_def)
  have args: "ytdlpTimeoutSeconds = 120"
    "ytdlpArgs url = [''-f'', ''b'', ''--get-url'', ''--no-warnings'', url]"
    by (simp_all add: ytdlpTimeoutSeconds_def ytdlpArgs_def)
  have okc: "runErr ?c = None \<and> TrimSpace (stdout ?c) \<noteq> [] \<Longrightarrow>
      GetVideoURL ?c = (hd (splitLines (TrimSpace (stdout ?c))), None)"
    using GetVideoURL_ok [of ?c] by simp
  have badc: "\<not> (runErr ?c = None \<and> TrimSpace (stdout ?c) \<noteq> []) \<Longrightarrow>
      fst (GetVideoURL ?c) = [] \<and> snd (GetVideoURL ?c) \<noteq> None"
    by (rule GetVideoURL_fail)
  have first: "\<And>u rest. TrimSpace (stdout ?c) = u @ lineFeed # rest \<Longrightarrow> lineFeed \<notin> set u
      \<Longrightarrow> hd (splitLines (TrimSpace (stdout ?c))) = u"
    by (simp add: splitLines_first)
  from run show ?thesis
  proof (cases rule: RunJob_paths)
    case (init e)
    with i show ?thesis by simp
  next
    case (scrape e)
    with s show ?thesis by simp
  next
    case (metadata sr' e)
    with s m show ?thesis by simp
  next
    case (resolve sr')
    with s have sr: "sr' = sr" by simp
    from resolve(4) [unfolded resolveVideoURL_Inl job sr]
    show ?thesis
    proof (elim disjE conjE exE)
      fix u
      assume y: "detectPlatform url = ''youtube''"
        and g: "GetVideoURL ?c = (u, err)" and n: "\<not> (err = None \<and> u \<noteq> [])"
        and r: "r = newResult (newJob w url)\<lparr>MetadataPath := getJobPath w (newUUID w) @ ''/metadata_raw.json''\<rparr>
                  \<lparr>ErrorMessage := ''yt-dlp failed: '' @ fmtV err\<rparr>"
        and t: "tr = ([InitJob (newUUID w) None,
              SaveInput (newUUID w) (marshalIndent w (newJob w url))
               (saveInput w (newUUID w) (marshalIndent w (newJob w url)))] @
             [ScrapeCall url None, SaveMetadata (newUUID w) (RawMetadata sr) None]) @
            [RunTool ytdlpTimeoutSeconds (ytdlpArgs url) err]"
      have bad: "\<not> (runErr ?c = None \<and> TrimSpace (stdout ?c) \<noteq> [])"
      proof
        assume "runErr ?c = None \<and> TrimSpace (stdout ?c) \<noteq> []"
        then have "GetVideoURL ?c = (hd (splitLines (TrimSpace (stdout ?c))), None) \<and>
          hd (splitLines (TrimSpace (stdout ?c))) \<noteq> []"
          using GetVideoURL_ok [of ?c] by simp
        with g n show False by simp
      qed
      with badc g have "err \<noteq> None" by simp
      with y bad r t show ?thesis
        by (simp add: trace_simps args newResult_def)
    next
      assume y: "detectPlatform url \<noteq> ''youtube''" and v: "VideoURL sr = []"
        and r: "r = newResult (newJob w url)\<lparr>MetadataPath := getJobPath w (newUUID w) @ ''/metadata_raw.json''\<rparr>"
        and e: "err = Some (Error ''no video url resolved'')"
        and t: "tr = [InitJob (newUUID w) None,
              SaveInput (newUUID w) (marshalIndent w (newJob w url))
               (saveInput w (newUUID w) (marshalIndent w (newJob w url)))] @
             [ScrapeCall url None, SaveMetadata (newUUID w) (RawMetadata sr) None]"
      from y v r e t show ?thesis by (simp add: trace_simps newResult_def)
    qed
  next
    case (proceed sr' u tr2)
    with s have sr: "sr' = sr" by simp
    from proceed(4) [unfolded resolveVideoURL_Inr job sr]
    have res: "(detectPlatform url = ''youtube'' \<and> GetVideoURL ?c = (u, None) \<and> u \<noteq> [] \<and>
        toolCalls tr2 = [(120, [''-f'', ''b'', ''--get-url'', ''--no-warnings'', url])] \<and>
        downloadCalls tr2 = []) \<or>
      (detectPlatform url \<noteq> ''youtube'' \<and> u = VideoURL sr \<and> u \<noteq> [] \<and>
        toolCalls tr2 = [] \<and> downloadCalls tr2 = [])"
      by (auto simp: trace_simps args)
    from proceed(5) have dl: "downloadCalls tr = downloadCalls tr2 @ [u]"
      and tl: "toolCalls tr = toolCalls tr2"
      by (cases rule: downloadAndSave_paths; simp add: trace_simps)+
    from res show ?thesis
    proof (elim disjE conjE)
      assume y: "detectPlatform url = ''youtube''" and g: "GetVideoURL ?c = (u, None)"
        and u: "u \<noteq> []"
        and t2: "toolCalls tr2 = [(120, [''-f'', ''b'', ''--get-url'', ''--no-warnings'', url])]"
          "downloadCalls tr2 = []"
      have good: "runErr ?c = None \<and> TrimSpace (stdout ?c) \<noteq> []"
        using badc g by fastforce
      with okc g have "u = hd (splitLines (TrimSpace (stdout ?c)))" by simp
      with y good t2 dl tl first show ?thesis by simp
    next
      assume "detectPlatform url \<noteq> ''youtube''" "u = VideoURL sr" "u \<noteq> []"
        "toolCalls tr2 = []" "downloadCalls tr2 = []"
      with dl tl show ?thesis by simp
    qed
  qed
qed


text \<open>Two concrete runs for a \<open>youtube\<close> URL: the tool succeeds, the tool fails.\<close>

lemma run_ok_youtube:
  "RunJob okWorld youtubeURL =
     (\<lparr>Job = \<lparr>ID = ''job-1'', URL = ''https://youtu.be/abc'', Platform = ''youtube'',
               CreatedAt = 100\<rparr>,
       MetadataPath = ''out/jobs/job-1/metadata_raw.json'',
       VideoPath = ''out/jobs/job-1/video.mp4'', Success = True,
       ErrorMessage = [], CompletedAt = 200\<rparr>,
      None,
      [InitJob ''job-1'' None, SaveInput ''job-1'' ''{}'' None,
       ScrapeCall ''https://youtu.be/abc'' None,
       SaveMetadata ''job-1'' ''[{}]'' None,
       RunTool 120 [''-f'', ''b'', ''--get-url'', ''--no-warnings'', ''https://youtu.be/abc''] None,
       Download ''https://a/1'' None,
       SaveVideo ''job-1'' ''bytes'' ''video.mp4'' None, CloseReader])"
  by code_simp

lemma run_tool_fails:
  "RunJob toolFailsWorld youtubeURL =
     (\<lparr>Job = \<lparr>ID = ''job-1'', URL = ''https://youtu.be/abc'', Platform = ''youtube'',
               CreatedAt = 100\<rparr>,
       MetadataPath = ''out/jobs/job-1/metadata_raw.json'', VideoPath = [],
       Success = False,
       ErrorMessage =
         ''yt-dlp failed: yt-dlp failed: exit status 1, stderr: ERROR: video unavailable'',
       CompletedAt = 0\<rparr>,
      Some (Error ''yt-dlp failed: exit status 1, stderr: ERROR: video unavailable''),
      [InitJob ''job-1'' None, SaveInput ''job-1'' ''{}'' None,
       ScrapeCall ''https://youtu.be/abc'' None,
       SaveMetadata ''job-1'' ''[{}]'' None,
       RunTool 120 [''-f'', ''b'', ''--get-url'', ''--no-warnings'', ''https://youtu.be/abc'']
         (Some (Error ''yt-dlp failed: exit status 1, stderr: ERROR: video unavailable''))])"
  by code_simp

theorem RunJob_resolution_by_platform_witness:
  "downloadCalls (snd (snd (RunJob okWorld youtubeURL))) = [''https://a/1''] \<and>
   toolCalls (snd (snd (RunJob okWorld youtubeURL)))
     = [(120, [''-f'', ''b'', ''--get-url'', ''--no-warnings'', ''https://youtu.be/abc''])] \<and>
   downloadCalls (snd (snd (RunJob toolFailsWorld youtubeURL))) = [] \<and>
   fst (snd (RunJob toolFailsWorld youtubeURL)) \<noteq> None \<and>
   toolCalls (snd (snd (RunJob okWorld tiktokURL))) = [] \<and>
   downloadCalls (snd (snd (RunJob okWorld tiktokURL))) = [''https://cdn/v.mp4'']"
proof -
  have y: "detectPlatform youtubeURL = ''youtube''" and t: "detectPlatform tiktokURL = ''tiktok''"
    by code_simp+
  have u: "youtubeURL = ''https://youtu.be/abc''" by (simp add: youtubeURL_def)
  have i: "initJob okWorld (newUUID okWorld) = None"
    and m: "saveMetadata okWorld (newUUID okWorld) (RawMetadata \<lparr>RawMetadata = ''[{}]'', VideoURL = ''https://cdn/v.mp4''\<rparr>) = None"
    and s: "\<And>url. scrape okWorld url = Inr \<lparr>RawMetadata = ''[{}]'', VideoURL = ''https://cdn/v.mp4''\<rparr>"
    by (simp_all add: okWorld_def)
  have i': "initJob toolFailsWorld (newUUID toolFailsWorld) = None"
    and m': "saveMetadata toolFailsWorld (newUUID toolFailsWorld) (RawMetadata \<lparr>RawMetadata = ''[{}]'', VideoURL = ''https://cdn/v.mp4''\<rparr>) = None"
    and s': "\<And>url. scrape toolFailsWorld url = Inr \<lparr>RawMetadata = ''[{}]'', VideoURL = ''https://cdn/v.mp4''\<rparr>"
    by (simp_all add: toolFailsWorld_def okWorld_def)
  have a: "\<And>url. isASCII (stdout (runYtDlp okWorld (ytdlpArgs url)))"
    by (simp add: okWorld_def isASCII_def lineFeed_def)
  have a': "\<And>url. isASCII (stdout (runYtDlp toolFailsWorld (ytdlpArgs url)))"
    by (simp add: toolFailsWorld_def okWorld_def isASCII_def)
  have e: "runErr (runYtDlp okWorld (ytdlpArgs youtubeURL)) = None"
    by (simp add: okWorld_def)
  have tr: "TrimSpace (stdout (runYtDlp okWorld (ytdlpArgs youtubeURL)))
      = ''https://a/1'' @ lineFeed # ''https://a/2''"
    by code_simp
  have nl: "lineFeed \<notin> set ''https://a/1''" by code_simp
  have e': "runErr (runYtDlp toolFailsWorld (ytdlpArgs youtubeURL)) \<noteq> None"
    by (simp add: toolFailsWorld_def)
  have split: "\<And>w url. RunJob w url
      = (fst (RunJob w url), fst (snd (RunJob w url)), snd (snd (RunJob w url)))"
    by simp
  have ne: "TrimSpace (stdout (runYtDlp okWorld (ytdlpArgs youtubeURL))) \<noteq> []"
    by (simp add: tr)
  note Y = RunJob_resolution_by_platform [OF i s m a split [of okWorld youtubeURL]]
  from Y y have tc: "toolCalls (snd (snd (RunJob okWorld youtubeURL)))
      = [(120, [''-f'', ''b'', ''--get-url'', ''--no-warnings'', youtubeURL])]"
    by blast
  from Y y e ne have "\<forall>u rest.
      TrimSpace (stdout (runYtDlp okWorld (ytdlpArgs youtubeURL))) = u @ lineFeed # rest \<and>
      lineFeed \<notin> set u \<longrightarrow> downloadCalls (snd (snd (RunJob okWorld youtubeURL))) = [u]"
    by blast
  with tr nl have dc: "downloadCalls (snd (snd (RunJob okWorld youtubeURL))) = [''https://a/1'']"
    by blast
  note F = RunJob_resolution_by_platform [OF i' s' m' a' split [of toolFailsWorld youtubeURL]]
  from F y e' have 2: "downloadCalls (snd (snd (RunJob toolFailsWorld youtubeURL))) = [] \<and>
     fst (snd (RunJob toolFailsWorld youtubeURL)) \<noteq> None"
    by blast
  note K = RunJob_resolution_by_platform [OF i s m a split [of okWorld tiktokURL]]
  have v: "VideoURL \<lparr>RawMetadata = ''[{}]'', VideoURL = ''https://cdn/v.mp4''\<rparr> = ''https://cdn/v.mp4''"
    "VideoURL \<lparr>RawMetadata = ''[{}]'', VideoURL = ''https://cdn/v.mp4''\<rparr> \<noteq> []"
    by simp_all
  from K t v have 3: "toolCalls (snd (snd (RunJob okWorld tiktokURL))) = [] \<and>
     downloadCalls (snd (snd (RunJob okWorld tiktokURL))) = [''https://cdn/v.mp4'']"
    by metis
  from tc dc 2 3 u show ?thesis by simp
qed

section \<open>Errors, unsupported platforms and the error message\<close>

lemma Scrape_unsupported:
  "apify_detectPlatform url = [] \<Longrightarrow>
   Scrape srv url = (Some (Inl (Error (''unsupported platform for URL: '' @ url))), [])"
  by (simp add: Scrape_def)














text \<open>
  Claim C2, as the code has it. \<open>RunJob\<close> has no test on the platform tag. For a URL
  the metadata client's classifier rejects (the orchestrator's tag is then \<open>unknown\<close>),
  \<open>RunJob\<close> calls \<open>InitJob\<close>, \<open>SaveInput\<close> and \<open>Scrape\<close>; \<open>Scrape\<close> returns the
  unsupported-platform error without sending a request, and \<open>RunJob\<close> returns that
  error with \<open>Success = false\<close>, the trace ending there: no \<open>SaveMetadata\<close>, no
  tool, no download, no \<open>SaveVideo\<close>. When \<open>InitJob\<close> fails its error is returned.
  The URL is taken to be ASCII, where \<open>toLower\<close> is what Go's function does.
\<close>

theorem RunJob_unsupported_platform:
  assumes ascii: "isASCII url"
    and un: "apify_detectPlatform url = []"
    and sc: "fst (Scrape srv url) = Some (scrape w url)"
    and run: "RunJob w url = (r, err, tr)"
  shows "detectPlatform url = ''unknown'' \<and>
    Scrape srv url = (Some (Inl (Error (''unsupported platform for URL: '' @ url))), []) \<and>
    \<not> Success r \<and>
    (initJob w (newUUID w) = None \<longrightarrow>
       err = Some (Error (''unsupported platform for URL: '' @ url)) \<and>
       tr = [InitJob (newUUID w) None,
             SaveInput (newUUID w) (marshalIndent w (newJob w url))
               (saveInput w (newUUID w) (marshalIndent w (newJob w url))),
             ScrapeCall url (Some (Error (''unsupported platform for URL: '' @ url)))]) \<and>
    (\<forall>e. initJob w (newUUID w) = Some e \<longrightarrow>
       err = Some e \<and> tr = [InitJob (newUUID w) (Some e)])"
proof -
  have S: "Scrape srv url = (Some (Inl (Error (''unsupported platform for URL: '' @ url))), [])"
    using un by (rule Scrape_unsupported)
  with sc have w: "scrape w url = Inl (Error (''unsupported platform for URL: '' @ url))"
    by simp
  have d: "detectPlatform url = ''unknown''" using un by (rule apify_unsupported_unknown)
  from run have "\<not> Success r \<and>
    (initJob w (newUUID w) = None \<longrightarrow>
       err = Some (Error (''unsupported platform for URL: '' @ url)) \<and>
       tr = [InitJob (newUUID w) None,
             SaveInput (newUUID w) (marshalIndent w (newJob w url))
               (saveInput w (newUUID w) (marshalIndent w (newJob w url))),
             ScrapeCall url (Some (Error (''unsupported platform for URL: '' @ url)))]) \<and>
    (\<forall>e. initJob w (newUUID w) = Some e \<longrightarrow>
       err = Some e \<and> tr = [InitJob (newUUID w) (Some e)])"
  proof (cases rule: RunJob_paths)
    case (init e)
    then show ?thesis by (simp add: newResult_def)
  next
    case (scrape e)
    with w show ?thesis by (simp add: newResult_def)
  next
    case (metadata sr e)
    with w show ?thesis by simp
  next
    case (resolve sr)
    with w show ?thesis by simp
  next
    case (proceed sr u tr2)
    with w show ?thesis by simp
  qed
  with S d show ?thesis by simp
qed

text \<open>
  Claim C2 as stated (no storage call and no call of the metadata client for an
  unsupported URL) fails: for \<open>https://vimeo.com/1\<close> the trace holds \<open>InitJob\<close>,
  \<open>SaveInput\<close> and the call of \<open>Scrape\<close>.
\<close>

theorem RunJob_calls_storage_for_unsupported:
  "detectPlatform vimeoURL = ''unknown'' \<and>
   snd (snd (RunJob unsupportedWorld vimeoURL))
     = [InitJob ''job-1'' None, SaveInput ''job-1'' ''{}'' None,
        ScrapeCall ''https://vimeo.com/1''
          (Some (Error ''unsupported platform for URL: https://vimeo.com/1''))]"
  by code_simp

text \<open>
  Claim C8 (every run that returns an error carries a non-empty \<open>ErrorMessage\<close>). The
  code does not do this on the path \<open>no video url resolved\<close>: for a \<open>tiktok\<close> URL
  whose scrape result has an empty \<open>VideoURL\<close> (here the result array is empty, and
  \<open>Scrape\<close> discards the extraction failure), \<open>RunJob\<close> returns the error and leaves
  \<open>ErrorMessage\<close> empty.
\<close>

theorem RunJob_empty_url_no_message:
  "fst (Scrape emptyRemote tiktokURL) = Some (scrape emptyResultWorld tiktokURL) \<and>
   fst (snd (RunJob emptyResultWorld tiktokURL)) = Some (Error ''no video url resolved'') \<and>
   ErrorMessage (fst (RunJob emptyResultWorld tiktokURL)) = []"
  by code_simp




theorem RunJob_unsupported_platform_witness:
  "detectPlatform vimeoURL = ''unknown'' \<and>
   \<not> Success (fst (RunJob unsupportedWorld vimeoURL)) \<and>
   fst (snd (RunJob unsupportedWorld vimeoURL))
     = Some (Error (''unsupported platform for URL: '' @ vimeoURL)) \<and>
   snd (Scrape emptyRemote vimeoURL) = []"
proof -
  have un: "apify_detectPlatform vimeoURL = []" by code_simp
  have sc: "fst (Scrape emptyRemote vimeoURL) = Some (scrape unsupportedWorld vimeoURL)"
    by code_simp
  have run: "RunJob unsupportedWorld vimeoURL
      = (fst (RunJob unsupportedWorld vimeoURL), fst (snd (RunJob unsupportedWorld vimeoURL)),
         snd (snd (RunJob unsupportedWorld vimeoURL)))"
    by simp
  have i: "initJob unsupportedWorld (newUUID unsupportedWorld) = None"
    by (simp add: unsupportedWorld_def okWorld_def)
  have ascii: "isASCII vimeoURL" by code_simp
  from RunJob_unsupported_platform [OF ascii un sc run] i show ?thesis by simp
qed

end
